theory Spec2Isabelle
  imports Complex_Main "HOL-Library.Word"
begin

section \<open>Common data\<close>

text \<open>
  A scalar field is a two-dimensional array, stored row by row: \<open>m ! y ! x\<close> is
  the source's \<open>noise_map[y, x]\<close>. The values of the noise and sprite arrays are
  modelled by the real numbers they approximate, with the infinities and NaN where the
  code can produce them; the rounding of that arithmetic is outside the model.
\<close>

type_synonym field = "real list list"

datatype error = ValueError | ZeroDivisionError | OverflowError

text \<open>\<open>d.get(key, default)\<close> on a dictionary.\<close>

definition get_or :: "'v \<Rightarrow> ('k \<rightharpoonup> 'v) \<Rightarrow> 'k \<Rightarrow> 'v" where
  "get_or d m k = (case m k of None \<Rightarrow> d | Some v \<Rightarrow> v)"

text \<open>
  The arrays of the source are rectangular: \<open>h\<close> rows of \<open>w\<close> values each.
  \<open>shape\<close> reads \<open>(h, w)\<close> back; with no row, the loops over it do nothing,
  whatever the width.
\<close>

definition shape :: "'a list list \<Rightarrow> nat \<times> nat" where
  "shape m = (length m, if m = [] then 0 else length (hd m))"

definition rectangular :: "nat \<Rightarrow> nat \<Rightarrow> 'a list list \<Rightarrow> bool" where
  "rectangular h w m = (length m = h \<and> list_all (\<lambda>row. length row = w) m)"

text \<open>\<open>np.clip(v, lo, hi)\<close> on a finite value.\<close>

definition clip :: "real \<Rightarrow> real \<Rightarrow> real \<Rightarrow> real" where
  "clip v lo hi = min (max v lo) hi"

section \<open>Floats\<close>

text \<open>
  NumPy arithmetic does not raise on a division by zero or on an overflow: it gives an
  infinity, or NaN for \<open>0 / 0\<close> and \<open>inf / inf\<close>. A float is a real number, one of the
  two infinities, or NaN. The operations named \<open>np_\<close> are exact on finite values (the
  rounding of the noise and sprite arithmetic is outside the model); the operations
  named \<open>f_\<close> further down round as Python's doubles do.
\<close>

datatype npfloat = Fin real | PInf | NInf | NaN

text \<open>\<open>a / b\<close> on two finite floats.\<close>

definition np_div :: "real \<Rightarrow> real \<Rightarrow> npfloat" where
  "np_div a b =
    (if b = 0 then (if a = 0 then NaN else if 0 < a then PInf else NInf)
     else Fin (a / b))"

text \<open>\<open>c - v\<close> for a finite \<open>c\<close>.\<close>

fun np_rsub :: "real \<Rightarrow> npfloat \<Rightarrow> npfloat" where
  "np_rsub c (Fin v) = Fin (c - v)"
| "np_rsub c PInf = NInf"
| "np_rsub c NInf = PInf"
| "np_rsub c NaN = NaN"

text \<open>\<open>np.clip(v, lo, hi)\<close>: NaN stays NaN.\<close>

fun np_clip :: "npfloat \<Rightarrow> real \<Rightarrow> real \<Rightarrow> npfloat" where
  "np_clip (Fin v) lo hi = Fin (clip v lo hi)"
| "np_clip PInf lo hi = Fin hi"
| "np_clip NInf lo hi = Fin lo"
| "np_clip NaN lo hi = NaN"

fun np_neg :: "npfloat \<Rightarrow> npfloat" where
  "np_neg (Fin v) = Fin (- v)"
| "np_neg PInf = NInf"
| "np_neg NInf = PInf"
| "np_neg NaN = NaN"

text \<open>The sum: the two infinities add up to NaN.\<close>

fun np_add :: "npfloat \<Rightarrow> npfloat \<Rightarrow> npfloat" where
  "np_add NaN b = NaN"
| "np_add a NaN = NaN"
| "np_add (Fin a) (Fin b) = Fin (a + b)"
| "np_add (Fin a) PInf = PInf"
| "np_add (Fin a) NInf = NInf"
| "np_add PInf (Fin b) = PInf"
| "np_add NInf (Fin b) = NInf"
| "np_add PInf PInf = PInf"
| "np_add NInf NInf = NInf"
| "np_add PInf NInf = NaN"
| "np_add NInf PInf = NaN"

text \<open>The product: an infinity times zero is NaN.\<close>

fun np_mul :: "npfloat \<Rightarrow> npfloat \<Rightarrow> npfloat" where
  "np_mul NaN b = NaN"
| "np_mul a NaN = NaN"
| "np_mul (Fin a) (Fin b) = Fin (a * b)"
| "np_mul (Fin a) PInf = (if a = 0 then NaN else if 0 < a then PInf else NInf)"
| "np_mul (Fin a) NInf = (if a = 0 then NaN else if 0 < a then NInf else PInf)"
| "np_mul PInf (Fin b) = (if b = 0 then NaN else if 0 < b then PInf else NInf)"
| "np_mul NInf (Fin b) = (if b = 0 then NaN else if 0 < b then NInf else PInf)"
| "np_mul PInf PInf = PInf"
| "np_mul PInf NInf = NInf"
| "np_mul NInf PInf = NInf"
| "np_mul NInf NInf = PInf"

text \<open>
  The quotient of two floats: a finite value over an infinity is 0, and an infinity
  over an infinity is NaN.
\<close>

fun np_divide :: "npfloat \<Rightarrow> npfloat \<Rightarrow> npfloat" where
  "np_divide NaN b = NaN"
| "np_divide a NaN = NaN"
| "np_divide (Fin a) (Fin b) = np_div a b"
| "np_divide (Fin a) PInf = Fin 0"
| "np_divide (Fin a) NInf = Fin 0"
| "np_divide PInf (Fin b) = (if 0 \<le> b then PInf else NInf)"
| "np_divide NInf (Fin b) = (if 0 \<le> b then NInf else PInf)"
| "np_divide PInf PInf = NaN"
| "np_divide PInf NInf = NaN"
| "np_divide NInf PInf = NaN"
| "np_divide NInf NInf = NaN"

text \<open>\<open>np.maximum\<close> and the \<open>max\<close> of an array: NaN wins over every number.\<close>

fun np_maximum :: "npfloat \<Rightarrow> npfloat \<Rightarrow> npfloat" where
  "np_maximum NaN b = NaN"
| "np_maximum a NaN = NaN"
| "np_maximum PInf b = PInf"
| "np_maximum a PInf = PInf"
| "np_maximum NInf b = b"
| "np_maximum a NInf = a"
| "np_maximum (Fin a) (Fin b) = Fin (max a b)"

text \<open>The comparison \<open>v > c\<close> with a finite \<open>c\<close>: false for NaN.\<close>

fun np_greater :: "npfloat \<Rightarrow> real \<Rightarrow> bool" where
  "np_greater (Fin v) c = (c < v)"
| "np_greater PInf c = True"
| "np_greater NInf c = False"
| "np_greater NaN c = False"

text \<open>
  A result too large for its format is an infinity: from \<open>2^1024 - 2^970\<close> on for a
  double, and from \<open>2^128 - 2^103\<close> on for a value stored in a float32 array.
\<close>

definition overflow64 :: "real \<Rightarrow> npfloat" where
  "overflow64 r =
    (if 2 ^ 1024 - 2 ^ 970 \<le> \<bar>r\<bar> then (if 0 < r then PInf else NInf) else Fin r)"

fun store_float32 :: "npfloat \<Rightarrow> npfloat" where
  "store_float32 (Fin r) =
    (if 2 ^ 128 - 2 ^ 103 \<le> \<bar>r\<bar> then (if 0 < r then PInf else NInf) else Fin r)"
| "store_float32 PInf = PInf"
| "store_float32 NInf = NInf"
| "store_float32 NaN = NaN"

text \<open>
  \<open>np.power(b, e)\<close> and \<open>b ** e\<close> on a NumPy float, for a finite exponent: anything
  to the power 0 is 1, 0 to a negative power is an infinity, and a negative base has a
  power for an integer exponent only.
\<close>

fun np_power :: "npfloat \<Rightarrow> real \<Rightarrow> npfloat" where
  "np_power NaN e = (if e = 0 then Fin 1 else NaN)"
| "np_power PInf e = (if e = 0 then Fin 1 else if 0 < e then PInf else Fin 0)"
| "np_power NInf e =
     (if e = 0 then Fin 1 else if e < 0 then Fin 0
      else if e = real_of_int \<lfloor>e\<rfloor> \<and> odd \<lfloor>e\<rfloor> then NInf else PInf)"
| "np_power (Fin b) e =
     (if e = 0 then Fin 1
      else if b = 0 then (if 0 < e then Fin 0 else PInf)
      else if 0 < b then overflow64 (b powr e)
      else if e = real_of_int \<lfloor>e\<rfloor>
        then overflow64 ((- 1) ^ nat \<bar>\<lfloor>e\<rfloor>\<bar> * (\<bar>b\<bar> powr e))
      else NaN)"

subsection \<open>Python doubles\<close>

text \<open>
  Python's \<open>float\<close> is the IEEE binary64 format. \<open>double_round\<close> rounds a real number
  to the nearest double, ties to the even significand: the spacing of the doubles
  around \<open>x\<close> is \<open>2^(e - 52)\<close> for \<open>2^e \<le> |x| < 2^(e+1)\<close>, and \<open>2^(-1074)\<close> below
  \<open>2^(-1022)\<close>; a result of magnitude \<open>2^1024\<close> is an infinity. The sign of a zero is
  not kept: \<open>-0.0\<close> and \<open>0.0\<close> compare equal.
\<close>

definition round_half_even :: "real \<Rightarrow> int" where
  "round_half_even r =
    (let f = \<lfloor>r\<rfloor>; d = r - real_of_int f
     in if d < 1 / 2 then f else if 1 / 2 < d then f + 1 else if even f then f else f + 1)"

definition double_round :: "real \<Rightarrow> npfloat" where
  "double_round x =
    (if x = 0 then Fin 0
     else
       let e = max \<lfloor>log 2 \<bar>x\<bar>\<rfloor> (- 1022);
           q = 2 powi (e - 52);
           y = real_of_int (round_half_even (x / q)) * q
       in if 2 ^ 1024 \<le> \<bar>y\<bar> then (if 0 < y then PInf else NInf) else Fin y)"

text \<open>\<open>a + b\<close>, \<open>a - b\<close> and \<open>a * b\<close> on Python floats: the exact result, rounded.\<close>

fun f_add :: "npfloat \<Rightarrow> npfloat \<Rightarrow> npfloat" where
  "f_add NaN b = NaN"
| "f_add a NaN = NaN"
| "f_add (Fin a) (Fin b) = double_round (a + b)"
| "f_add (Fin a) PInf = PInf"
| "f_add (Fin a) NInf = NInf"
| "f_add PInf (Fin b) = PInf"
| "f_add NInf (Fin b) = NInf"
| "f_add PInf PInf = PInf"
| "f_add NInf NInf = NInf"
| "f_add PInf NInf = NaN"
| "f_add NInf PInf = NaN"

definition f_sub :: "npfloat \<Rightarrow> npfloat \<Rightarrow> npfloat" where
  "f_sub a b = f_add a (np_neg b)"

fun f_mul :: "npfloat \<Rightarrow> npfloat \<Rightarrow> npfloat" where
  "f_mul NaN b = NaN"
| "f_mul a NaN = NaN"
| "f_mul (Fin a) (Fin b) = double_round (a * b)"
| "f_mul (Fin a) PInf = (if a = 0 then NaN else if 0 < a then PInf else NInf)"
| "f_mul (Fin a) NInf = (if a = 0 then NaN else if 0 < a then NInf else PInf)"
| "f_mul PInf (Fin b) = (if b = 0 then NaN else if 0 < b then PInf else NInf)"
| "f_mul NInf (Fin b) = (if b = 0 then NaN else if 0 < b then NInf else PInf)"
| "f_mul PInf PInf = PInf"
| "f_mul PInf NInf = NInf"
| "f_mul NInf PInf = NInf"
| "f_mul NInf NInf = PInf"

text \<open>\<open>a / b\<close> on Python floats raises when \<open>b\<close> is zero.\<close>

fun f_div :: "npfloat \<Rightarrow> npfloat \<Rightarrow> error + npfloat" where
  "f_div a (Fin b) =
    (if b = 0 then Inl ZeroDivisionError
     else case a of
       Fin x \<Rightarrow> Inr (double_round (x / b))
     | PInf \<Rightarrow> Inr (if 0 < b then PInf else NInf)
     | NInf \<Rightarrow> Inr (if 0 < b then NInf else PInf)
     | NaN \<Rightarrow> Inr NaN)"
| "f_div (Fin x) PInf = Inr (Fin 0)"
| "f_div (Fin x) NInf = Inr (Fin 0)"
| "f_div a b = Inr NaN"

text \<open>The comparisons \<open>a < b\<close> and \<open>a <= b\<close>: false when either side is NaN.\<close>

fun f_less :: "npfloat \<Rightarrow> npfloat \<Rightarrow> bool" where
  "f_less NaN b = False"
| "f_less a NaN = False"
| "f_less (Fin a) (Fin b) = (a < b)"
| "f_less a PInf = (a \<noteq> PInf)"
| "f_less NInf (Fin b) = True"
| "f_less a b = False"

definition f_le :: "npfloat \<Rightarrow> npfloat \<Rightarrow> bool" where
  "f_le a b = (a \<noteq> NaN \<and> b \<noteq> NaN \<and> (a = b \<or> f_less a b))"

text \<open>
  \<open>a / b\<close> on two Python integers: the quotient rounded once, a
  \<open>ZeroDivisionError\<close> for a zero divisor and an \<open>OverflowError\<close> when the quotient is too
  large for a double.
\<close>

definition int_truediv :: "int \<Rightarrow> int \<Rightarrow> error + npfloat" where
  "int_truediv a b =
    (if b = 0 then Inl ZeroDivisionError
     else case double_round (real_of_int a / real_of_int b) of
       Fin r \<Rightarrow> Inr (Fin r)
     | _ \<Rightarrow> Inl OverflowError)"

section \<open>Noise composer\<close>

text \<open>
  The parameter bag of one layer. The keys read with \<open>p['key']\<close> are fields; the
  keys read with \<open>p.get('key', default)\<close> may be absent.
\<close>

record noise_params =
  p_scale :: real
  p_octaves :: int
  p_persistence :: real
  p_lacunarity :: real
  p_seed :: int
  p_power :: "real option"
  p_warp :: "real option"
  p_x_offset :: "real option"
  p_y_offset :: "real option"
  p_z_offset :: "real option"
  p_sensitivity :: "real option"
  p_invert :: "bool option"

definition opt_or :: "'a \<Rightarrow> 'a option \<Rightarrow> 'a" where
  "opt_or d v = (case v of None \<Rightarrow> d | Some x \<Rightarrow> x)"

text \<open>
  The noise primitives come from three libraries and are parameters of the model:
  \<open>noise.pnoise3(x, y, z, octaves, persistence, lacunarity, base)\<close>,
  \<open>OpenSimplex(seed).noise3(x, y, z)\<close> and \<open>PerlinNoise(octaves, seed)([x, y, z])\<close>.
  Each is a function of its arguments alone; what a library does with arguments it
  rejects is outside the model.
\<close>

record noise_lib =
  pnoise3 :: "real \<Rightarrow> real \<Rightarrow> real \<Rightarrow> int \<Rightarrow> real \<Rightarrow> real \<Rightarrow> int \<Rightarrow> real"
  simplex_noise3 :: "int \<Rightarrow> real \<Rightarrow> real \<Rightarrow> real \<Rightarrow> real"
  perlin_noise :: "int \<Rightarrow> int \<Rightarrow> real \<Rightarrow> real \<Rightarrow> real \<Rightarrow> real"

text \<open>The two nested loops \<open>for y in range(h): for x in range(w)\<close> filling an array.\<close>

definition grid :: "nat \<Rightarrow> nat \<Rightarrow> (nat \<Rightarrow> nat \<Rightarrow> 'a) \<Rightarrow> 'a list list" where
  "grid w h f = map (\<lambda>y. map (\<lambda>x. f x y) [0..<w]) [0..<h]"

definition map_field :: "(real \<Rightarrow> real) \<Rightarrow> field \<Rightarrow> field" where
  "map_field f m = map (map f) m"

definition field_min :: "field \<Rightarrow> real" where
  "field_min m = Min (set (concat m))"

definition field_max :: "field \<Rightarrow> real" where
  "field_max m = Max (set (concat m))"

text \<open>\<open>int(r)\<close> on a float: truncation towards zero.\<close>

definition py_int :: "real \<Rightarrow> int" where
  "py_int r = (if 0 \<le> r then \<lfloor>r\<rfloor> else \<lceil>r\<rceil>)"

subsection \<open>Seamless tiler\<close>

text \<open>
  The ramp weight of index \<open>i\<close> on an axis of extent \<open>n\<close> with band thickness \<open>b\<close>:
  1 at the edge, 0 outside both bands.
\<close>

definition blend_weight :: "nat \<Rightarrow> nat \<Rightarrow> int \<Rightarrow> real" where
  "blend_weight i n b =
    (if int i < b then 1 - real i / real_of_int b
     else if int n - b \<le> int i then 1 - real_of_int (int n - 1 - int i) / real_of_int b
     else 0)"

definition make_seamless_blend :: "field \<Rightarrow> real \<Rightarrow> field" where
  "make_seamless_blend noise_map blend_width =
    (let (h, w) = shape noise_map;
         blend_h = max 2 (py_int (real h * blend_width));
         blend_w = max 2 (py_int (real w * blend_width))
     in grid w h (\<lambda>x y.
          let blend_y = blend_weight y h blend_h;
              blend_x = blend_weight x w blend_w
          in if blend_y = 0 \<and> blend_x = 0 then noise_map ! y ! x
             else
               let p00 = noise_map ! y ! x;
                   p01 = noise_map ! y ! ((x + w div 2) mod w);
                   p10 = noise_map ! ((y + h div 2) mod h) ! x;
                   p11 = noise_map ! ((y + h div 2) mod h) ! ((x + w div 2) mod w);
                   top_blend = (1 - blend_x) * p00 + blend_x * p01;
                   bottom_blend = (1 - blend_x) * p10 + blend_x * p11
               in (1 - blend_y) * top_blend + blend_y * bottom_blend))"

subsection \<open>Generators\<close>

text \<open>The offsets \<open>(x_off, y_off, z_off)\<close>, each scaled by the sensitivity.\<close>

definition x_off :: "noise_params \<Rightarrow> real" where
  "x_off p = opt_or 0 (p_x_offset p) * opt_or 1 (p_sensitivity p)"

definition y_off :: "noise_params \<Rightarrow> real" where
  "y_off p = opt_or 0 (p_y_offset p) * opt_or 1 (p_sensitivity p)"

definition z_off :: "noise_params \<Rightarrow> real" where
  "z_off p = opt_or 0 (p_z_offset p) * opt_or 1 (p_sensitivity p)"

definition seamless_opt :: "bool \<Rightarrow> real \<Rightarrow> field \<Rightarrow> field" where
  "seamless_opt seamless blend_width result =
     (if seamless then make_seamless_blend result blend_width else result)"

text \<open>
  The remapping of the observed range to \<open>[0, 1]\<close> used by Perlin and FBM, skipped
  when the range is below \<open>1e-10\<close>.
\<close>

definition normalize_range :: "field \<Rightarrow> field" where
  "normalize_range noise_map =
    (let min_val = field_min noise_map; max_val = field_max noise_map
     in if max_val - min_val > 1 / 10 ^ 10
        then map_field (\<lambda>v. (v - min_val) / (max_val - min_val)) noise_map
        else noise_map)"

text \<open>The division by the maximum used by Turbulence and Ridged.\<close>

definition normalize_max :: "field \<Rightarrow> field" where
  "normalize_max noise_map =
    (let max_val = field_max noise_map
     in if max_val > 1 / 10 ^ 10
        then map_field (\<lambda>v. v / (max_val + 1 / 10 ^ 10)) noise_map
        else noise_map)"

definition perlin_raw :: "noise_lib \<Rightarrow> nat \<Rightarrow> nat \<Rightarrow> noise_params \<Rightarrow> field" where
  "perlin_raw lib w h p =
    (let scale = p_scale p;
         octaves = min (p_octaves p) 10;
         seed = p_seed p mod 256
     in grid w h (\<lambda>x y.
          let nx = (real x + x_off p) / scale;
              ny = (real y + y_off p) / scale;
              nz = z_off p / scale
          in pnoise3 lib nx ny nz octaves (p_persistence p) (p_lacunarity p) seed))"

text \<open>
  A generator fails where the source raises: \<open>min\<close> and \<open>max\<close> of an array without
  elements, and the division by a zero scale at the first pixel.
\<close>

definition perlin :: "noise_lib \<Rightarrow> nat \<Rightarrow> nat \<Rightarrow> noise_params \<Rightarrow> bool \<Rightarrow> real \<Rightarrow> error + field" where
  "perlin lib w h p seamless blend_width =
    (if h = 0 \<or> w = 0 then Inl ValueError
     else if p_scale p = 0 then Inl ZeroDivisionError
     else Inr (seamless_opt seamless blend_width (normalize_range (perlin_raw lib w h p))))"

definition simplex_raw :: "noise_lib \<Rightarrow> nat \<Rightarrow> nat \<Rightarrow> noise_params \<Rightarrow> field" where
  "simplex_raw lib w h p =
    (let scale = p_scale p
     in grid w h (\<lambda>x y.
          let nx = (real x + x_off p) / scale;
              ny = (real y + y_off p) / scale;
              nz = z_off p / scale
          in simplex_noise3 lib (p_seed p mod 256) nx ny nz))"

definition simplex :: "noise_lib \<Rightarrow> nat \<Rightarrow> nat \<Rightarrow> noise_params \<Rightarrow> bool \<Rightarrow> real \<Rightarrow> error + field" where
  "simplex lib w h p seamless blend_width =
    (if h \<noteq> 0 \<and> w \<noteq> 0 \<and> p_scale p = 0 then Inl ZeroDivisionError
     else Inr (seamless_opt seamless blend_width
                 (map_field (\<lambda>v. (v + 1) * 0.5) (simplex_raw lib w h p))))"

definition fbm_raw :: "noise_lib \<Rightarrow> nat \<Rightarrow> nat \<Rightarrow> noise_params \<Rightarrow> field" where
  "fbm_raw lib w h p =
    (let octaves = min (p_octaves p) 10;
         scale = p_scale p
     in grid w h (\<lambda>x y.
          perlin_noise lib octaves (p_seed p mod 256)
            ((real x + x_off p) / scale) ((real y + y_off p) / scale) (z_off p / scale)))"

definition fbm :: "noise_lib \<Rightarrow> nat \<Rightarrow> nat \<Rightarrow> noise_params \<Rightarrow> bool \<Rightarrow> real \<Rightarrow> error + field" where
  "fbm lib w h p seamless blend_width =
    (if h \<noteq> 0 \<and> w \<noteq> 0 \<and> p_scale p = 0 then Inl ZeroDivisionError
     else if h = 0 \<or> w = 0 then Inl ValueError
     else Inr (seamless_opt seamless blend_width (normalize_range (fbm_raw lib w h p))))"

text \<open>
  \<open>NoiseGenerator._turbulence\<close>. OpenSimplex returns NumPy floats, so \<open>val ** power\<close>
  does not raise: 0 to a negative power is an infinity. The value is stored in a
  float32 array, where a large one becomes an infinity too, and the division by an
  infinite maximum turns every infinity into NaN.
\<close>

definition turbulence_abs :: "noise_lib \<Rightarrow> nat \<Rightarrow> nat \<Rightarrow> noise_params \<Rightarrow> field" where
  "turbulence_abs lib w h p =
    (let scale = p_scale p
     in grid w h (\<lambda>x y.
          \<bar>simplex_noise3 lib (p_seed p mod 256)
             ((real x + x_off p) / scale) ((real y + y_off p) / scale) (z_off p / scale)\<bar>))"

definition turbulence_stored ::
  "noise_lib \<Rightarrow> nat \<Rightarrow> nat \<Rightarrow> noise_params \<Rightarrow> npfloat list list" where
  "turbulence_stored lib w h p =
    (let power' = opt_or 2 (p_power p)
     in map (map (\<lambda>val. store_float32 (np_power (Fin val) power'))) (turbulence_abs lib w h p))"

text \<open>\<open>noise_map.max()\<close>, which raises on an array without elements.\<close>

definition np_field_max :: "npfloat list list \<Rightarrow> error + npfloat" where
  "np_field_max m =
    (case concat m of [] \<Rightarrow> Inl ValueError | v # vs \<Rightarrow> Inr (fold np_maximum vs v))"

definition np_normalize_max :: "npfloat list list \<Rightarrow> error + npfloat list list" where
  "np_normalize_max noise_map =
    (case np_field_max noise_map of
       Inl e \<Rightarrow> Inl e
     | Inr max_val \<Rightarrow>
         Inr (if np_greater max_val (1 / 10 ^ 10)
              then map (map (\<lambda>v. np_divide v (np_add max_val (Fin (1 / 10 ^ 10))))) noise_map
              else noise_map))"

text \<open>
  \<open>make_seamless_blend\<close> on an array that may hold infinities and NaN: the same
  loops, with the products and sums of floats.
\<close>

definition make_seamless_blend_np :: "npfloat list list \<Rightarrow> real \<Rightarrow> npfloat list list" where
  "make_seamless_blend_np noise_map blend_width =
    (let (h, w) = shape noise_map;
         blend_h = max 2 (py_int (real h * blend_width));
         blend_w = max 2 (py_int (real w * blend_width))
     in grid w h (\<lambda>x y.
          let blend_y = blend_weight y h blend_h;
              blend_x = blend_weight x w blend_w
          in if blend_y = 0 \<and> blend_x = 0 then noise_map ! y ! x
             else
               let p00 = noise_map ! y ! x;
                   p01 = noise_map ! y ! ((x + w div 2) mod w);
                   p10 = noise_map ! ((y + h div 2) mod h) ! x;
                   p11 = noise_map ! ((y + h div 2) mod h) ! ((x + w div 2) mod w);
                   top_blend = np_add (np_mul (Fin (1 - blend_x)) p00) (np_mul (Fin blend_x) p01);
                   bottom_blend = np_add (np_mul (Fin (1 - blend_x)) p10) (np_mul (Fin blend_x) p11)
               in np_add (np_mul (Fin (1 - blend_y)) top_blend) (np_mul (Fin blend_y) bottom_blend)))"

definition turbulence ::
  "noise_lib \<Rightarrow> nat \<Rightarrow> nat \<Rightarrow> noise_params \<Rightarrow> bool \<Rightarrow> real \<Rightarrow> error + npfloat list list" where
  "turbulence lib w h p seamless blend_width =
    (if h \<noteq> 0 \<and> w \<noteq> 0 \<and> p_scale p = 0 then Inl ZeroDivisionError
     else case np_normalize_max (turbulence_stored lib w h p) of
       Inl e \<Rightarrow> Inl e
     | Inr result \<Rightarrow>
         Inr (if seamless then make_seamless_blend_np result blend_width else result))"

text \<open>The octave loop of the ridged multifractal at one sampling point.\<close>

fun ridged_octaves ::
  "(real \<Rightarrow> real \<Rightarrow> real \<Rightarrow> real) \<Rightarrow> real \<Rightarrow> real \<Rightarrow> real \<Rightarrow> nat \<Rightarrow> real \<Rightarrow> real \<Rightarrow> real \<Rightarrow> real" where
  "ridged_octaves sn X Y Z 0 amp freq result = result"
| "ridged_octaves sn X Y Z (Suc n) amp freq result =
    (let signal = 1 - \<bar>sn (X * freq) (Y * freq) (Z * freq)\<bar>;
         signal' = signal * signal
     in ridged_octaves sn X Y Z n (amp * 0.5) (freq * 2) (result + signal' * amp))"

definition ridged_raw :: "noise_lib \<Rightarrow> nat \<Rightarrow> nat \<Rightarrow> noise_params \<Rightarrow> field" where
  "ridged_raw lib w h p =
    (let scale = p_scale p;
         octaves = min (p_octaves p) 10
     in grid w h (\<lambda>x y.
          ridged_octaves (simplex_noise3 lib (p_seed p mod 256))
            ((real x + x_off p) / scale) ((real y + y_off p) / scale) (z_off p / scale)
            (nat octaves) 1 1 0))"

definition ridged :: "noise_lib \<Rightarrow> nat \<Rightarrow> nat \<Rightarrow> noise_params \<Rightarrow> bool \<Rightarrow> real \<Rightarrow> error + field" where
  "ridged lib w h p seamless blend_width =
    (if h \<noteq> 0 \<and> w \<noteq> 0 \<and> 0 < min (p_octaves p) 10 \<and> p_scale p = 0 then Inl ZeroDivisionError
     else if h = 0 \<or> w = 0 then Inl ValueError
     else Inr (seamless_opt seamless blend_width (normalize_max (ridged_raw lib w h p))))"

definition domain_warp_raw :: "noise_lib \<Rightarrow> nat \<Rightarrow> nat \<Rightarrow> noise_params \<Rightarrow> field" where
  "domain_warp_raw lib w h p =
    (let seed = p_seed p mod 256;
         scale = p_scale p;
         warp = opt_or 50 (p_warp p)
     in grid w h (\<lambda>x y.
          let wx = simplex_noise3 lib (seed + 1)
                     ((real x + x_off p) / scale) ((real y + y_off p) / scale) (z_off p / scale) * warp;
              wy = simplex_noise3 lib (seed + 1)
                     ((real x + x_off p) / scale + 5.2) ((real y + y_off p) / scale + 1.3)
                     (z_off p / scale) * warp
          in simplex_noise3 lib seed ((real x + wx) / scale) ((real y + wy) / scale)
               (z_off p / scale)))"

definition domain_warp :: "noise_lib \<Rightarrow> nat \<Rightarrow> nat \<Rightarrow> noise_params \<Rightarrow> bool \<Rightarrow> real \<Rightarrow> error + field" where
  "domain_warp lib w h p seamless blend_width =
    (if h \<noteq> 0 \<and> w \<noteq> 0 \<and> p_scale p = 0 then Inl ZeroDivisionError
     else Inr (seamless_opt seamless blend_width
                 (map_field (\<lambda>v. (v + 1) * 0.5) (domain_warp_raw lib w h p))))"

text \<open>
  \<open>NoiseGenerator.generate\<close>: the dispatch on the type name, then the inversion. The
  fields of the generators other than Turbulence hold finite values only.
\<close>

definition lift_field :: "error + field \<Rightarrow> error + npfloat list list" where
  "lift_field r = (case r of Inl e \<Rightarrow> Inl e | Inr m \<Rightarrow> Inr (map (map Fin) m))"

definition generate ::
  "noise_lib \<Rightarrow> string \<Rightarrow> nat \<Rightarrow> nat \<Rightarrow> noise_params \<Rightarrow> bool \<Rightarrow> real
     \<Rightarrow> error + npfloat list list" where
  "generate lib noise_type width height params seamless blend_width =
    (let result =
       (if noise_type = ''Perlin''
          then lift_field (perlin lib width height params seamless blend_width)
        else if noise_type = ''Simplex''
          then lift_field (simplex lib width height params seamless blend_width)
        else if noise_type = ''FBM''
          then lift_field (fbm lib width height params seamless blend_width)
        else if noise_type = ''Turbulence''
          then turbulence lib width height params seamless blend_width
        else if noise_type = ''Ridged''
          then lift_field (ridged lib width height params seamless blend_width)
        else if noise_type = ''Domain Warp''
          then lift_field (domain_warp lib width height params seamless blend_width)
        else Inr (replicate height (replicate width (Fin 0))))
     in case result of
          Inl e \<Rightarrow> Inl e
        | Inr r \<Rightarrow> Inr (if opt_or False (p_invert params) then map (map (np_rsub 1)) r else r))"

definition supported_types :: "string set" where
  "supported_types = {''Perlin'', ''Simplex'', ''FBM'', ''Turbulence'', ''Ridged'', ''Domain Warp''}"

text \<open>Every value of a field lies between two bounds; a float does when it is finite.\<close>

definition in_range :: "real \<Rightarrow> real \<Rightarrow> field \<Rightarrow> bool" where
  "in_range lo hi m = list_all (list_all (\<lambda>v. lo \<le> v \<and> v \<le> hi)) m"

definition np_between :: "real \<Rightarrow> real \<Rightarrow> npfloat \<Rightarrow> bool" where
  "np_between lo hi v = (case v of Fin r \<Rightarrow> lo \<le> r \<and> r \<le> hi | _ \<Rightarrow> False)"

definition np_in_range :: "real \<Rightarrow> real \<Rightarrow> npfloat list list \<Rightarrow> bool" where
  "np_in_range lo hi m = list_all (list_all (np_between lo hi)) m"

definition np_finite :: "npfloat \<Rightarrow> bool" where
  "np_finite v = (case v of Fin r \<Rightarrow> True | _ \<Rightarrow> False)"

definition np_all_finite :: "npfloat list list \<Rightarrow> bool" where
  "np_all_finite m = list_all (list_all np_finite) m"

section \<open>Layer blender\<close>

text \<open>
  \<open>NoiseWorker.blend_noise\<close>: every operator works element by element on two arrays
  of one shape (both layers are generated with the same width and height).
\<close>

definition zip_with :: "(real \<Rightarrow> real \<Rightarrow> real) \<Rightarrow> field \<Rightarrow> field \<Rightarrow> field" where
  "zip_with f a b = map2 (\<lambda>ra rb. map2 f ra rb) a b"

definition overlay_px :: "real \<Rightarrow> real \<Rightarrow> real" where
  "overlay_px a b = (if a < 0.5 then 2 * a * b else 1 - 2 * (1 - a) * (1 - b))"

definition blend_noise :: "field \<Rightarrow> field \<Rightarrow> real \<Rightarrow> string \<Rightarrow> field" where
  "blend_noise noise_a noise_b weight mode =
    (if mode = ''Mix'' then
       zip_with (\<lambda>a b. a * (1 - weight) + b * weight) noise_a noise_b
     else if mode = ''Add'' then
       zip_with (\<lambda>a b. clip (a + b * weight) 0 1) noise_a noise_b
     else if mode = ''Multiply'' then
       zip_with (\<lambda>a b. a * (b * weight + (1 - weight))) noise_a noise_b
     else if mode = ''Screen'' then
       zip_with (\<lambda>a b. 1 - (1 - a) * (1 - b * weight)) noise_a noise_b
     else if mode = ''Overlay'' then
       zip_with (\<lambda>a b. a * (1 - weight) + overlay_px a b * weight) noise_a noise_b
     else if mode = ''Min'' then
       zip_with (\<lambda>a b. min a (b * weight + a * (1 - weight))) noise_a noise_b
     else if mode = ''Max'' then
       zip_with (\<lambda>a b. max a (b * weight + a * (1 - weight))) noise_a noise_b
     else noise_a)"

section \<open>Sprite field library\<close>

text \<open>
  The parameter bag of a sprite: every key is read with \<open>p.get('key', default)\<close>.
\<close>

record shape_params =
  s_radius :: "real option"
  s_outer_radius :: "real option"
  s_inner_radius :: "real option"
  s_thickness :: "real option"
  s_softness :: "real option"
  s_rotation :: "real option"
  s_gradient :: "bool option"
  s_intensity :: "real option"
  s_falloff :: "real option"
  s_blur :: "real option"
  s_color_r :: "real option"
  s_color_g :: "real option"
  s_color_b :: "real option"
  s_alpha :: "real option"

type_synonym rgba = "8 word \<times> 8 word \<times> 8 word \<times> 8 word"

text \<open>
  \<open>.astype(np.uint8)\<close> on a float: the fraction is dropped when the result fits a
  byte. NumPy leaves every other conversion (a value out of range, an infinity, NaN) to
  the platform, a parameter here.
\<close>

definition astype_uint8 :: "(npfloat \<Rightarrow> 8 word) \<Rightarrow> npfloat \<Rightarrow> 8 word" where
  "astype_uint8 platform v =
    (case v of
       Fin r \<Rightarrow> if - 1 < r \<and> r < 256 then word_of_int (py_int r) else platform v
     | _ \<Rightarrow> platform v)"

text \<open>
  The conversion of NumPy on x86-64: the integer part is taken as a 32-bit integer and
  its low byte is kept, so the value wraps around modulo 256. A value whose integer part
  does not fit 32 bits, an infinity and NaN give the low byte of the processor's
  "indefinite" integer, which is 0.
\<close>

definition wrap_cast :: "npfloat \<Rightarrow> 8 word" where
  "wrap_cast v =
    (case v of
       Fin r \<Rightarrow> if - (2 ^ 31) - 1 < r \<and> r < 2 ^ 31 then word_of_int (py_int r) else 0
     | _ \<Rightarrow> 0)"

text \<open>\<open>SpriteGenerator._apply_color_and_alpha\<close>, one pixel and the whole array.\<close>

definition color_pixel :: "(npfloat \<Rightarrow> 8 word) \<Rightarrow> shape_params \<Rightarrow> npfloat \<Rightarrow> rgba" where
  "color_pixel platform params intensity =
    (let r = py_int (opt_or 255 (s_color_r params));
         g = py_int (opt_or 255 (s_color_g params));
         b = py_int (opt_or 255 (s_color_b params));
         alpha_mult = opt_or 1 (s_alpha params)
     in (astype_uint8 platform (np_mul intensity (Fin (real_of_int r))),
         astype_uint8 platform (np_mul intensity (Fin (real_of_int g))),
         astype_uint8 platform (np_mul intensity (Fin (real_of_int b))),
         astype_uint8 platform (np_mul (np_mul intensity (Fin alpha_mult)) (Fin 255))))"

definition apply_color_and_alpha ::
  "(npfloat \<Rightarrow> 8 word) \<Rightarrow> npfloat list list \<Rightarrow> shape_params \<Rightarrow> rgba list list" where
  "apply_color_and_alpha platform intensity params =
     map (map (color_pixel platform params)) intensity"

text \<open>
  What the conversion makes of one channel, given its product \<open>x\<close>: inside
  \<open>(-1, 256)\<close> the byte is the integer part, which is the product clamped to
  \<open>[0, 255]\<close>; outside, the byte is the platform's, and on x86-64 that is the integer
  part modulo 256 up to \<open>2^31\<close> and 0 beyond.
\<close>

definition channel_cast :: "real \<Rightarrow> 8 word \<Rightarrow> (npfloat \<Rightarrow> 8 word) \<Rightarrow> bool" where
  "channel_cast x c platform =
    ((- 1 < x \<and> x < 256 \<longrightarrow> uint c = py_int (clip x 0 255))
     \<and> (x \<le> - 1 \<or> 256 \<le> x \<longrightarrow> c = platform (Fin x))
     \<and> (platform = wrap_cast \<longrightarrow>
          (- (2 ^ 31) - 1 < x \<and> x < 2 ^ 31 \<longrightarrow> uint c = py_int x mod 256)
          \<and> (x \<le> - (2 ^ 31) - 1 \<or> 2 ^ 31 \<le> x \<longrightarrow> c = 0)))"

text \<open>The Euclidean distance of pixel \<open>(x, y)\<close> from the centre \<open>(w / 2, h / 2)\<close>.\<close>

definition centre_dist :: "nat \<Rightarrow> nat \<Rightarrow> nat \<Rightarrow> nat \<Rightarrow> real" where
  "centre_dist w h x y = sqrt ((real x - real w / 2) ^ 2 + (real y - real h / 2) ^ 2)"

text \<open>\<open>SpriteGenerator._circle\<close>: the intensity of one pixel, and the sprite.\<close>

definition circle_intensity :: "nat \<Rightarrow> nat \<Rightarrow> shape_params \<Rightarrow> nat \<Rightarrow> nat \<Rightarrow> npfloat" where
  "circle_intensity w h p x y =
    (let radius = opt_or 0.4 (s_radius p) * real (min w h) / 2;
         softness = opt_or 0.1 (s_softness p) * real (min w h) / 2;
         dist = centre_dist w h x y;
         intensity = (if softness > 0 then np_clip (Fin (1 - (dist - radius) / softness)) 0 1
                      else Fin (if dist \<le> radius then 1 else 0))
     in if opt_or False (s_gradient p)
        then np_mul intensity (np_rsub 1 (np_clip (np_div dist radius) 0 1))
        else intensity)"

definition circle :: "(npfloat \<Rightarrow> 8 word) \<Rightarrow> nat \<Rightarrow> nat \<Rightarrow> shape_params \<Rightarrow> rgba list list" where
  "circle platform w h p = apply_color_and_alpha platform (grid w h (circle_intensity w h p)) p"

text \<open>\<open>SpriteGenerator._ring\<close>: both masks divide by the softness, whatever it is.\<close>

definition ring_intensity :: "nat \<Rightarrow> nat \<Rightarrow> shape_params \<Rightarrow> nat \<Rightarrow> nat \<Rightarrow> npfloat" where
  "ring_intensity w h p x y =
    (let outer_radius = opt_or 0.4 (s_outer_radius p) * real (min w h) / 2;
         inner_radius = opt_or 0.25 (s_inner_radius p) * real (min w h) / 2;
         softness = opt_or 0.1 (s_softness p) * real (min w h) / 2;
         dist = centre_dist w h x y;
         outer_mask = np_clip (np_rsub 1 (np_div (dist - outer_radius) softness)) 0 1;
         inner_mask = np_clip (np_div (dist - inner_radius) softness) 0 1;
         intensity = np_mul outer_mask inner_mask
     in if opt_or False (s_gradient p)
        then
          let ring_center = (outer_radius + inner_radius) / 2;
              ring_width = (outer_radius - inner_radius) / 2;
              dist_from_center = \<bar>dist - ring_center\<bar>
          in np_mul intensity (np_rsub 1 (np_clip (np_div dist_from_center ring_width) 0 1))
        else intensity)"

definition ring :: "(npfloat \<Rightarrow> 8 word) \<Rightarrow> nat \<Rightarrow> nat \<Rightarrow> shape_params \<Rightarrow> rgba list list" where
  "ring platform w h p = apply_color_and_alpha platform (grid w h (ring_intensity w h p)) p"

text \<open>\<open>SpriteGenerator._cross\<close>; \<open>np.radians\<close> turns degrees into radians.\<close>

definition radians :: "real \<Rightarrow> real" where
  "radians d = d * pi / 180"

definition cross_intensity :: "nat \<Rightarrow> nat \<Rightarrow> shape_params \<Rightarrow> nat \<Rightarrow> nat \<Rightarrow> npfloat" where
  "cross_intensity w h p x y =
    (let thickness = opt_or 0.1 (s_thickness p) * real (min w h);
         softness = opt_or 0.1 (s_softness p) * real (min w h);
         rotation = radians (opt_or 0 (s_rotation p));
         dx = real x - real w / 2;
         dy = real y - real h / 2;
         x_rot = (if rotation \<noteq> 0 then dx * cos rotation - dy * sin rotation else dx);
         y_rot = (if rotation \<noteq> 0 then dx * sin rotation + dy * cos rotation else dy);
         dist_h = \<bar>y_rot\<bar>;
         intensity_h = np_clip (np_rsub 1 (np_div (dist_h - thickness / 2) softness)) 0 1;
         dist_v = \<bar>x_rot\<bar>;
         intensity_v = np_clip (np_rsub 1 (np_div (dist_v - thickness / 2) softness)) 0 1
     in np_maximum intensity_h intensity_v)"

definition cross :: "(npfloat \<Rightarrow> 8 word) \<Rightarrow> nat \<Rightarrow> nat \<Rightarrow> shape_params \<Rightarrow> rgba list list" where
  "cross platform w h p = apply_color_and_alpha platform (grid w h (cross_intensity w h p)) p"

text \<open>
  \<open>SpriteGenerator._glow\<close>. \<open>gaussian_filter\<close> is SciPy's, a parameter of the model;
  it runs only for a positive blur.
\<close>

definition glow_intensity :: "nat \<Rightarrow> nat \<Rightarrow> shape_params \<Rightarrow> nat \<Rightarrow> nat \<Rightarrow> npfloat" where
  "glow_intensity w h p x y =
    (let intensity_val = opt_or 1 (s_intensity p);
         falloff = opt_or 2 (s_falloff p);
         radius = opt_or 0.5 (s_radius p);
         dist = centre_dist w h x y;
         max_dist = sqrt ((real w / 2) ^ 2 + (real h / 2) ^ 2);
         norm_dist = np_div dist (max_dist * radius)
     in np_mul (np_power (np_rsub 1 (np_clip norm_dist 0 1)) falloff) (Fin intensity_val))"

definition glow ::
  "(npfloat \<Rightarrow> 8 word) \<Rightarrow> (npfloat list list \<Rightarrow> real \<Rightarrow> npfloat list list)
     \<Rightarrow> nat \<Rightarrow> nat \<Rightarrow> shape_params \<Rightarrow> rgba list list" where
  "glow platform gaussian_filter w h p =
    (let intensity = grid w h (glow_intensity w h p);
         blur = opt_or 0 (s_blur p);
         intensity' = (if blur > 0 then gaussian_filter intensity (blur * real (min w h) / 10)
                       else intensity)
     in apply_color_and_alpha platform intensity' p)"

section \<open>Parameter animator\<close>

text \<open>
  \<open>SpriteGeneratorGUI\<close> keeps one dictionary per animation attribute, keyed by the
  parameter name, and the static parameter bag of the current sprite type. The values
  are finite Python floats (a spin-box value times a step), and the animator computes
  with them in double arithmetic.
\<close>

record anim_state =
  anim_enabled :: "string \<rightharpoonup> bool"
  anim_start :: "string \<rightharpoonup> real"
  anim_end :: "string \<rightharpoonup> real"
  anim_style :: "string \<rightharpoonup> string"
  anim_curve :: "string \<rightharpoonup> string"
  sprite_params :: "string \<rightharpoonup> real"

text \<open>
  \<open>apply_curve\<close>. \<open>math_pow\<close> stands for \<open>math.pow\<close> of the standard library, which
  may raise.
\<close>

definition apply_curve ::
  "(npfloat \<Rightarrow> npfloat \<Rightarrow> error + npfloat) \<Rightarrow> npfloat \<Rightarrow> string \<Rightarrow> error + npfloat" where
  "apply_curve math_pow t curve_type =
    (if curve_type = ''Linear'' then Inr t
     else if curve_type = ''Ease In'' then Inr (f_mul t t)
     else if curve_type = ''Ease Out''
       then Inr (f_sub (Fin 1) (f_mul (f_sub (Fin 1) t) (f_sub (Fin 1) t)))
     else if curve_type = ''Ease In/Out'' then
       (if f_less t (Fin 0.5) then Inr (f_mul (f_mul (Fin 2) t) t)
        else case math_pow (f_add (f_mul (Fin (- 2)) t) (Fin 2)) (Fin 2) of
               Inl e \<Rightarrow> Inl e
             | Inr pw \<Rightarrow>
                 (case f_div pw (Fin 2) of
                    Inl e \<Rightarrow> Inl e
                  | Inr hv \<Rightarrow> Inr (f_sub (Fin 1) hv)))
     else if curve_type = ''Stepped'' then Inr (if f_less t (Fin 0.5) then Fin 0 else Fin 1)
     else Inr t)"

text \<open>
  \<open>calculate_animated_value\<close>. \<open>rnd frame\<close> stands for
  \<open>random.seed(frame); random.random()\<close>, a double that depends on the frame index only.
\<close>

definition calculate_animated_value ::
  "(int \<Rightarrow> real) \<Rightarrow> (npfloat \<Rightarrow> npfloat \<Rightarrow> error + npfloat) \<Rightarrow> anim_state \<Rightarrow> string
     \<Rightarrow> int \<Rightarrow> int \<Rightarrow> error + npfloat" where
  "calculate_animated_value rnd math_pow st key frame total_frames =
    (if \<not> get_or False (anim_enabled st) key then Inr (Fin (get_or 0 (sprite_params st) key))
     else
       let start = Fin (get_or 0 (anim_start st) key);
           end' = Fin (get_or 1 (anim_end st) key);
           style = get_or ''Linear'' (anim_style st) key;
           curve = get_or ''Linear'' (anim_curve st) key
       in case (if total_frames \<le> 1 then Inr (Fin 0)
                else int_truediv frame (total_frames - 1)) of
            Inl e \<Rightarrow> Inl e
          | Inr progress \<Rightarrow>
              if style = ''Random''
                then Inr (f_add start (f_mul (Fin (rnd frame)) (f_sub end' start)))
              else
                let progress' = (if style = ''Ping Pong''
                                 then (if f_le progress (Fin 0.5) then f_mul progress (Fin 2)
                                       else f_sub (Fin 2) (f_mul progress (Fin 2)))
                                 else progress)
                in case apply_curve math_pow progress' curve of
                     Inl e \<Rightarrow> Inl e
                   | Inr t \<Rightarrow> Inr (f_add start (f_mul (f_sub end' start) t)))"

section \<open>Atlas packer\<close>

text \<open>
  \<open>SpriteGeneratorGUI.auto_calculate_atlas_layout\<close>: the new \<open>(cols, rows)\<close>, given
  the mode, the frame count and the current \<open>(cols, rows)\<close>, which Manual mode keeps.
  \<open>math.sqrt\<close> raises on a negative number, and the division raises when \<open>cols\<close> is 0.
\<close>

definition auto_calculate_atlas_layout ::
  "string \<Rightarrow> int \<Rightarrow> int \<times> int \<Rightarrow> error + int \<times> int" where
  "auto_calculate_atlas_layout mode frame_count cur =
    (if mode = ''Manual'' then Inr cur
     else if mode = ''Row Only'' then Inr (frame_count, 1)
     else if mode = ''Column Only'' then Inr (1, frame_count)
     else if frame_count < 0 then Inl ValueError
     else
       let sqrt_frames = \<lceil>sqrt (real_of_int frame_count)\<rceil>;
           cols = sqrt_frames
       in if cols = 0 then Inl ZeroDivisionError
          else Inr (cols, \<lceil>real_of_int frame_count / real_of_int cols\<rceil>))"

text \<open>
  The grid of \<open>NoiseGeneratorGUI.export_atlas\<close>, always the square layout:
  \<open>cols = int(np.ceil(np.sqrt(num_frames)))\<close>, \<open>rows = int(np.ceil(num_frames / cols))\<close>.
  A negative count gives a NaN that \<open>int\<close> refuses.
\<close>

definition export_atlas_grid :: "int \<Rightarrow> error + int \<times> int" where
  "export_atlas_grid num_frames =
    (if num_frames < 0 then Inl ValueError
     else
       let cols = \<lceil>sqrt (real_of_int num_frames)\<rceil>
       in if cols = 0 then Inl ZeroDivisionError
          else Inr (cols, \<lceil>real_of_int num_frames / real_of_int cols\<rceil>))"

section \<open>Sequence naming\<close>

text \<open>\<open>str(n)\<close> for a natural number: its decimal digits.\<close>

fun str_nat :: "nat \<Rightarrow> string" where
  "str_nat n = (if n < 10 then [''0123456789'' ! n]
                else str_nat (n div 10) @ [''0123456789'' ! (n mod 10)])"

declare str_nat.simps [simp del]

text \<open>The format \<open>{i:0{width}d}\<close>: zeros on the left up to the width, never a cut.\<close>

definition format_0d :: "nat \<Rightarrow> nat \<Rightarrow> string" where
  "format_0d width i = replicate (width - length (str_nat i)) CHR ''0'' @ str_nat i"

text \<open>
  \<open>NoiseGeneratorGUI.export_sequence\<close>: the padding width and the name of every
  frame file, in the order they are written.
\<close>

definition padding_width :: "nat \<Rightarrow> nat" where
  "padding_width num_frames = length (str_nat num_frames)"

definition frame_filename :: "string \<Rightarrow> nat \<Rightarrow> nat \<Rightarrow> string" where
  "frame_filename frame_prefix width i =
     frame_prefix @ ''_frame_'' @ format_0d width i @ ''.png''"

definition export_sequence_names :: "string \<Rightarrow> nat \<Rightarrow> string list" where
  "export_sequence_names frame_prefix num_frames =
     map (frame_filename frame_prefix (padding_width num_frames)) [0..<num_frames]"

section \<open>Sample inputs\<close>

text \<open>Stand-ins for the libraries and sample parameter bags, used to run the model.\<close>

definition flat_lib :: "real \<Rightarrow> noise_lib" where
  "flat_lib c = \<lparr>pnoise3 = (\<lambda>x y z oc pe la b. c), simplex_noise3 = (\<lambda>s x y z. c),
                 perlin_noise = (\<lambda>oc s x y z. c)\<rparr>"

definition ramp_lib :: noise_lib where
  "ramp_lib = \<lparr>pnoise3 = (\<lambda>x y z oc pe la b. x), simplex_noise3 = (\<lambda>s x y z. 0),
                perlin_noise = (\<lambda>oc s x y z. x)\<rparr>"

definition demo_params :: noise_params where
  "demo_params = \<lparr>p_scale = 1, p_octaves = 6, p_persistence = 0.5, p_lacunarity = 2,
     p_seed = 42, p_power = None, p_warp = None, p_x_offset = Some 0.5, p_y_offset = None,
     p_z_offset = None, p_sensitivity = None, p_invert = None\<rparr>"

definition demo_field :: field where
  "demo_field = [[0, 1, 2, 3, 4, 5], [6, 7, 8, 9, 10, 11], [12, 13, 14, 15, 16, 17],
                 [18, 19, 20, 21, 22, 23], [24, 25, 26, 27, 28, 29], [30, 31, 32, 33, 34, 35]]"

definition empty_bag :: shape_params where
  "empty_bag = \<lparr>s_radius = None, s_outer_radius = None, s_inner_radius = None,
     s_thickness = None, s_softness = None, s_rotation = None, s_gradient = None,
     s_intensity = None, s_falloff = None, s_blur = None, s_color_r = None,
     s_color_g = None, s_color_b = None, s_alpha = None\<rparr>"

text \<open>
  Two animated parameters: one from 0.25 to 0.75, and one from 0.8 to 0.3, that is from
  the double nearest to 0.8 to the double nearest to 0.3.
\<close>

definition demo_anim :: anim_state where
  "demo_anim = \<lparr>anim_enabled = [''radius'' \<mapsto> True], anim_start = [''radius'' \<mapsto> 1 / 4],
     anim_end = [''radius'' \<mapsto> 3 / 4], anim_style = [''radius'' \<mapsto> ''Linear''],
     anim_curve = Map.empty, sprite_params = [''radius'' \<mapsto> 0.4]\<rparr>"

definition drift_anim :: anim_state where
  "drift_anim = \<lparr>anim_enabled = [''radius'' \<mapsto> True],
     anim_start = [''radius'' \<mapsto> 3602879701896397 / 2 ^ 52],
     anim_end = [''radius'' \<mapsto> 5404319552844595 / 2 ^ 54],
     anim_style = [''radius'' \<mapsto> ''Linear''],
     anim_curve = [''radius'' \<mapsto> ''Linear''], sprite_params = Map.empty\<rparr>"

text \<open>A stand-in for \<open>math.pow\<close>, exact for the exponent 2.\<close>

definition square_pow :: "npfloat \<Rightarrow> npfloat \<Rightarrow> error + npfloat" where
  "square_pow x y = Inr (f_mul x x)"

section \<open>Arrays and grids\<close>

lemma length_grid: "length (grid w h f) = h"
  by (simp add: grid_def)

lemma nth_grid: "y < h \<Longrightarrow> x < w \<Longrightarrow> grid w h f ! y ! x = f x y"
  by (simp add: grid_def)

lemma rectangular_grid: "rectangular h w (grid w h f)"
  by (simp add: rectangular_def grid_def list_all_iff)

lemma rectangular_shape:
  "rectangular h w m \<Longrightarrow> shape m = (h, if h = 0 then 0 else w)"
  by (cases m) (auto simp: rectangular_def shape_def)

lemma rectangular_nth: "rectangular h w m \<Longrightarrow> y < h \<Longrightarrow> length (m ! y) = w"
  by (simp add: rectangular_def list_all_length)

lemma rectangular_map_field: "rectangular h w m \<Longrightarrow> rectangular h w (map_field f m)"
  by (simp add: rectangular_def map_field_def list_all_iff)

lemma map_field_replicate:
  "map_field f (replicate h (replicate w c)) = replicate h (replicate w (f c))"
  by (simp add: map_field_def)

lemma in_range_iff:
  "in_range lo hi m \<longleftrightarrow> (\<forall>row\<in>set m. \<forall>v\<in>set row. lo \<le> v \<and> v \<le> hi)"
  by (simp add: in_range_def list_all_iff)

lemma in_range_nth:
  "in_range lo hi m \<Longrightarrow> y < length m \<Longrightarrow> x < length (m ! y)
     \<Longrightarrow> lo \<le> m ! y ! x \<and> m ! y ! x \<le> hi"
  by (simp add: in_range_def list_all_length)

lemma in_range_grid:
  "in_range lo hi (grid w h f) \<longleftrightarrow> (\<forall>y<h. \<forall>x<w. lo \<le> f x y \<and> f x y \<le> hi)"
  by (simp add: in_range_def grid_def list_all_length)

lemma in_range_map_field:
  "in_range lo hi (map_field f m) \<longleftrightarrow> list_all (list_all (\<lambda>v. lo \<le> f v \<and> f v \<le> hi)) m"
  by (simp add: in_range_def map_field_def list_all_iff)

lemma field_min_le: "row \<in> set m \<Longrightarrow> v \<in> set row \<Longrightarrow> field_min m \<le> v"
  unfolding field_min_def by (rule Min_le) auto

lemma field_max_ge: "row \<in> set m \<Longrightarrow> v \<in> set row \<Longrightarrow> v \<le> field_max m"
  unfolding field_max_def by (rule Max_ge) auto

section \<open>The seamless tiler\<close>

lemma rectangular_seamless:
  assumes "rectangular h w m"
  shows "rectangular h w (make_seamless_blend m bw)"
proof (cases "h = 0")
  case True
  then show ?thesis using rectangular_shape[OF assms]
    by (simp add: make_seamless_blend_def Let_def grid_def rectangular_def)
next
  case False
  then show ?thesis using rectangular_shape[OF assms]
    by (simp add: make_seamless_blend_def Let_def rectangular_grid)
qed

lemma blend_weight_outside:
  "b \<le> int i \<Longrightarrow> b \<le> int n - 1 - int i \<Longrightarrow> blend_weight i n b = 0"
  by (simp add: blend_weight_def)

text \<open>
  C2. The tiler returns an array of the shape of its input, and a pixel whose distance
  from both horizontal edges is at least \<open>b_h = max(2, int(h * blend_width))\<close> and whose
  distance from both vertical edges is at least \<open>b_w = max(2, int(w * blend_width))\<close>
  keeps its value.
\<close>

theorem seamless_frame:
  assumes "rectangular h w m"
  shows "rectangular h w (make_seamless_blend m blend_width)
       \<and> (\<forall>y x. y < h \<and> x < w
            \<and> max 2 (py_int (real h * blend_width)) \<le> int y
            \<and> max 2 (py_int (real h * blend_width)) \<le> int h - 1 - int y
            \<and> max 2 (py_int (real w * blend_width)) \<le> int x
            \<and> max 2 (py_int (real w * blend_width)) \<le> int w - 1 - int x
          \<longrightarrow> make_seamless_blend m blend_width ! y ! x = m ! y ! x)"
proof (intro conjI allI impI)
  show "rectangular h w (make_seamless_blend m blend_width)"
    by (rule rectangular_seamless[OF assms])
next
  fix y x
  assume a: "y < h \<and> x < w
            \<and> max 2 (py_int (real h * blend_width)) \<le> int y
            \<and> max 2 (py_int (real h * blend_width)) \<le> int h - 1 - int y
            \<and> max 2 (py_int (real w * blend_width)) \<le> int x
            \<and> max 2 (py_int (real w * blend_width)) \<le> int w - 1 - int x"
  then have h0: "h \<noteq> 0" by auto
  have sh: "shape m = (h, w)" using rectangular_shape[OF assms] h0 by simp
  have wy: "blend_weight y h (max 2 (py_int (real h * blend_width))) = 0"
    using a by (intro blend_weight_outside) simp_all
  have wx: "blend_weight x w (max 2 (py_int (real w * blend_width))) = 0"
    using a by (intro blend_weight_outside) simp_all
  show "make_seamless_blend m blend_width ! y ! x = m ! y ! x"
    using a sh wy wx by (simp add: make_seamless_blend_def Let_def nth_grid)
qed

theorem seamless_frame_witness:
  "rectangular 6 6 demo_field
   \<and> rectangular 6 6 (make_seamless_blend demo_field (1 / 10))
   \<and> make_seamless_blend demo_field (1 / 10) ! 2 ! 3 = 15"
proof -
  have r: "rectangular 6 6 demo_field" by (simp add: rectangular_def demo_field_def)
  have p: "py_int (real 6 * (1 / 10)) = 0" by (simp add: py_int_def)
  from seamless_frame[OF r, of "1 / 10"] p
  have "make_seamless_blend demo_field (1 / 10) ! 2 ! 3 = demo_field ! 2 ! 3"
    and "rectangular 6 6 (make_seamless_blend demo_field (1 / 10))" by simp_all
  then show ?thesis using r by (simp add: demo_field_def)
qed

text \<open>A blend of values between two bounds stays between them.\<close>

lemma convex_between:
  fixes a b t lo hi :: real
  assumes "lo \<le> a" "a \<le> hi" "lo \<le> b" "b \<le> hi" "0 \<le> t" "t \<le> 1"
  shows "lo \<le> (1 - t) * a + t * b \<and> (1 - t) * a + t * b \<le> hi"
proof -
  have "0 \<le> (1 - t) * (a - lo) + t * (b - lo)" using assms by simp
  moreover have "0 \<le> (1 - t) * (hi - a) + t * (hi - b)" using assms by simp
  ultimately show ?thesis by (simp add: algebra_simps)
qed

lemma blend_weight_unit:
  assumes "1 \<le> b" "i < n"
  shows "0 \<le> blend_weight i n b \<and> blend_weight i n b \<le> 1"
proof -
  have bpos: "0 < real_of_int b" using assms(1) by simp
  show ?thesis
  proof (cases "int i < b")
    case True
    then have "real i \<le> real_of_int b" by linarith
    then have "real i / real_of_int b \<le> 1" using bpos by (simp add: divide_le_eq_1)
    moreover have "0 \<le> real i / real_of_int b" using bpos by simp
    ultimately show ?thesis using True by (simp add: blend_weight_def)
  next
    case False
    show ?thesis
    proof (cases "int n - b \<le> int i")
      case True
      let ?d = "int n - 1 - int i"
      have d0: "0 \<le> ?d" using assms(2) by simp
      have "?d \<le> b" using True by simp
      then have "real_of_int ?d \<le> real_of_int b" by linarith
      then have "real_of_int ?d / real_of_int b \<le> 1"
        using bpos by (simp only: divide_le_eq_1 if_True simp_thms)
      moreover have "0 \<le> real_of_int ?d / real_of_int b"
        using bpos d0 by (intro divide_nonneg_pos) simp_all
      ultimately show ?thesis using True False by (simp add: blend_weight_def)
    next
      case F2: False
      then show ?thesis using False by (simp add: blend_weight_def)
    qed
  qed
qed

lemma in_range_seamless:
  assumes r: "rectangular h w m" and b: "in_range lo hi m"
  shows "in_range lo hi (make_seamless_blend m bw)"
proof (cases "h = 0")
  case True
  then show ?thesis using rectangular_shape[OF r]
    by (simp add: make_seamless_blend_def Let_def grid_def in_range_def)
next
  case False
  then have sh: "shape m = (h, w)" using rectangular_shape[OF r] by simp
  have len: "length m = h" using r by (simp add: rectangular_def)
  let ?bh = "max 2 (py_int (real h * bw))" and ?bw = "max 2 (py_int (real w * bw))"
  have px: "lo \<le> m ! y ! x \<and> m ! y ! x \<le> hi" if "y < h" "x < w" for y x
    using in_range_nth[OF b, of y x] that len rectangular_nth[OF r, of y] by simp
  have "lo \<le> v \<and> v \<le> hi"
    if yx: "y < h" "x < w" and v: "v = (let blend_y = blend_weight y h ?bh;
              blend_x = blend_weight x w ?bw
          in if blend_y = 0 \<and> blend_x = 0 then m ! y ! x
             else
               let p00 = m ! y ! x;
                   p01 = m ! y ! ((x + w div 2) mod w);
                   p10 = m ! ((y + h div 2) mod h) ! x;
                   p11 = m ! ((y + h div 2) mod h) ! ((x + w div 2) mod w);
                   top_blend = (1 - blend_x) * p00 + blend_x * p01;
                   bottom_blend = (1 - blend_x) * p10 + blend_x * p11
               in (1 - blend_y) * top_blend + blend_y * bottom_blend)" for y x v
  proof -
    have wy: "0 \<le> blend_weight y h ?bh \<and> blend_weight y h ?bh \<le> 1"
      using yx by (intro blend_weight_unit) simp_all
    have wx: "0 \<le> blend_weight x w ?bw \<and> blend_weight x w ?bw \<le> 1"
      using yx by (intro blend_weight_unit) simp_all
    have y': "(y + h div 2) mod h < h" and x': "(x + w div 2) mod w < w" using yx by simp_all
    note p00 = px[OF yx] and p01 = px[OF yx(1) x'] and p10 = px[OF y' yx(2)]
      and p11 = px[OF y' x']
    have top: "lo \<le> (1 - blend_weight x w ?bw) * m ! y ! x
                     + blend_weight x w ?bw * m ! y ! ((x + w div 2) mod w)
             \<and> (1 - blend_weight x w ?bw) * m ! y ! x
                     + blend_weight x w ?bw * m ! y ! ((x + w div 2) mod w) \<le> hi"
      using p00 p01 wx by (intro convex_between) simp_all
    have bot: "lo \<le> (1 - blend_weight x w ?bw) * m ! ((y + h div 2) mod h) ! x
                     + blend_weight x w ?bw * m ! ((y + h div 2) mod h) ! ((x + w div 2) mod w)
             \<and> (1 - blend_weight x w ?bw) * m ! ((y + h div 2) mod h) ! x
                     + blend_weight x w ?bw * m ! ((y + h div 2) mod h) ! ((x + w div 2) mod w)
                 \<le> hi"
      using p10 p11 wx by (intro convex_between) simp_all
    from convex_between[of lo _ hi _ "blend_weight y h ?bh"] top bot wy p00
    show ?thesis unfolding v Let_def by (simp split: if_splits)
  qed
  then show ?thesis using sh by (simp add: make_seamless_blend_def in_range_grid)
qed

lemma seamless_opt_keeps:
  "rectangular h w m \<Longrightarrow> in_range lo hi m \<Longrightarrow>
   rectangular h w (seamless_opt sl bw m) \<and> in_range lo hi (seamless_opt sl bw m)"
  by (simp add: seamless_opt_def rectangular_seamless in_range_seamless)

section \<open>Fields of floats\<close>

lemma thresholds: "(1::real) < 2 ^ 128 - 2 ^ 103" "(1::real) < 2 ^ 1024 - 2 ^ 970"
  by simp_all

lemma grid_map: "map (map F) (grid w h g) = grid w h (\<lambda>x y. F (g x y))"
  by (simp add: grid_def)

lemma grid_cong: "(\<And>x y. y < h \<Longrightarrow> x < w \<Longrightarrow> f x y = g x y) \<Longrightarrow> grid w h f = grid w h g"
  by (simp add: grid_def)

lemma shape_map: "shape (map (map F) m) = shape m"
  by (cases m) (simp_all add: shape_def)

lemma rectangular_map: "rectangular h w (map (map F) m) = rectangular h w m"
  by (simp add: rectangular_def list_all_iff)

lemma np_in_range_fin: "np_in_range lo hi (map (map Fin) m) = in_range lo hi m"
  by (simp add: np_in_range_def in_range_def np_between_def list_all_iff)

lemma seamless_np_fin:
  assumes r: "rectangular h w m"
  shows "make_seamless_blend_np (map (map Fin) m) bw = map (map Fin) (make_seamless_blend m bw)"
proof (cases "h = 0")
  case True
  then show ?thesis using rectangular_shape[OF r]
    by (simp add: make_seamless_blend_np_def make_seamless_blend_def shape_map grid_def)
next
  case False
  then have sh: "shape m = (h, w)" using rectangular_shape[OF r] by simp
  have len: "length m = h" using r by (simp add: rectangular_def)
  have nth: "map (map Fin) m ! y ! x = Fin (m ! y ! x)" if "y < h" "x < w" for y x
    using that len rectangular_nth[OF r, of y] by simp
  show ?thesis
    unfolding make_seamless_blend_np_def make_seamless_blend_def shape_map sh
    apply (simp only: prod.case Let_def grid_map)
    apply (rule grid_cong)
    subgoal for x y
      using nth[of y x] nth[of y "(x + w div 2) mod w"] nth[of "(y + h div 2) mod h" x]
        nth[of "(y + h div 2) mod h" "(x + w div 2) mod w"]
      by simp
    done
qed

lemma fold_np_maximum_fin: "fold np_maximum (map Fin vs) (Fin v) = Fin (fold max vs v)"
  by (induction vs arbitrary: v) simp_all

lemma np_field_max_fin:
  assumes "concat m \<noteq> []"
  shows "np_field_max (map (map Fin) m) = Inr (Fin (field_max m))"
proof -
  from assms obtain v vs where c: "concat m = v # vs" by (cases "concat m") auto
  have "concat (map (map Fin) m) = map Fin (concat m)" by (simp add: map_concat)
  then have "np_field_max (map (map Fin) m) = Inr (Fin (fold max vs v))"
    using c by (simp add: np_field_max_def fold_np_maximum_fin)
  moreover have "field_max m = fold max vs v"
    unfolding field_max_def c by (rule Max.set_eq_fold)
  ultimately show ?thesis by simp
qed

lemma np_normalize_max_fin:
  assumes "concat m \<noteq> []"
  shows "np_normalize_max (map (map Fin) m) = Inr (map (map Fin) (normalize_max m))"
proof (cases "field_max m > 1 / 10 ^ 10")
  case True
  then have "field_max m + 1 / 10 ^ 10 \<noteq> 0" by (simp add: add_pos_pos less_trans[rotated] less_imp_neq[symmetric])
  then show ?thesis using True np_field_max_fin[OF assms]
    by (simp add: np_normalize_max_def normalize_max_def map_field_def np_div_def)
next
  case False
  then show ?thesis using np_field_max_fin[OF assms]
    by (simp add: np_normalize_max_def normalize_max_def)
qed

lemma concat_grid_nonempty: "h \<noteq> 0 \<Longrightarrow> w \<noteq> 0 \<Longrightarrow> concat (grid w h f) \<noteq> []"
  by (simp add: grid_def upt_conv_Cons)

lemma store_overflow64:
  "store_float32 (overflow64 r) =
     (if 2 ^ 128 - 2 ^ 103 \<le> \<bar>r\<bar> then (if 0 < r then PInf else NInf) else Fin r)"
proof -
  have "(2::real) ^ 128 - 2 ^ 103 \<le> 2 ^ 1024 - 2 ^ 970" by simp
  then show ?thesis by (simp add: overflow64_def)
qed

lemma stored_cases:
  assumes "0 \<le> v"
  shows "store_float32 (np_power (Fin v) pw) = PInf
       \<or> (\<exists>r. 0 \<le> r \<and> store_float32 (np_power (Fin v) pw) = Fin r)"
proof (cases "pw = 0")
  case True
  then show ?thesis using thresholds(1) by simp
next
  case False
  show ?thesis
  proof (cases "v = 0")
    case True
    then show ?thesis using False by simp
  next
    case v: False
    then have "0 < v" using assms by simp
    then have "np_power (Fin v) pw = overflow64 (v powr pw)" using False by simp
    moreover have "0 \<le> v powr pw" by simp
    ultimately show ?thesis by (simp only: store_overflow64) (simp add: not_less)
  qed
qed

lemma np_power_unit_finite:
  assumes "0 \<le> v" "v \<le> 1" "0 \<le> pw"
  shows "np_finite (store_float32 (np_power (Fin v) pw))"
proof (cases "pw = 0")
  case True
  then show ?thesis using thresholds(1) by (simp add: np_finite_def)
next
  case False
  show ?thesis
  proof (cases "v = 0")
    case True
    then show ?thesis using False assms(3) by (simp add: np_finite_def)
  next
    case v: False
    then have "0 < v" using assms by simp
    then have p: "np_power (Fin v) pw = overflow64 (v powr pw)" using False by simp
    have "v powr pw \<le> 1" using assms by (simp add: powr_le1)
    moreover have "0 \<le> v powr pw" by simp
    ultimately have "\<bar>v powr pw\<bar> \<le> 1" by simp
    then have "\<not> 2 ^ 128 - 2 ^ 103 \<le> \<bar>v powr pw\<bar>" using thresholds(1) by linarith
    then show ?thesis unfolding p store_overflow64 by (simp add: np_finite_def)
  qed
qed

section \<open>The noise composer\<close>

lemma normalize_range_unit:
  assumes "field_max m - field_min m > 1 / 10 ^ 10 \<or> in_range 0 1 m"
  shows "in_range 0 1 (normalize_range m)"
proof (cases "field_max m - field_min m > 1 / 10 ^ 10")
  case True
  let ?lo = "field_min m" and ?hi = "field_max m"
  have d: "0 < ?hi - ?lo" using True by (simp add: less_trans[rotated])
  have "0 \<le> (v - ?lo) / (?hi - ?lo) \<and> (v - ?lo) / (?hi - ?lo) \<le> 1"
    if "row \<in> set m" "v \<in> set row" for row v
  proof -
    have "?lo \<le> v" "v \<le> ?hi" using that by (rule field_min_le, rule field_max_ge)
    then show ?thesis using d by (simp add: divide_le_eq_1)
  qed
  then show ?thesis using True
    by (simp add: normalize_range_def Let_def in_range_map_field list_all_iff)
next
  case False
  then show ?thesis using assms by (simp add: normalize_range_def Let_def)
qed

lemma normalize_max_unit:
  assumes "list_all (list_all (\<lambda>v. 0 \<le> v)) m"
  shows "in_range 0 1 (normalize_max m)"
proof (cases "field_max m > 1 / 10 ^ 10")
  case True
  have "0 \<le> v / (field_max m + 1 / 10 ^ 10) \<and> v / (field_max m + 1 / 10 ^ 10) \<le> 1"
    if "row \<in> set m" "v \<in> set row" for row v
  proof -
    have "0 \<le> v" using assms that by (simp add: list_all_iff)
    moreover have "v \<le> field_max m" using that by (rule field_max_ge)
    moreover have "0 < field_max m + 1 / 10 ^ 10"
      using True by (simp add: add_pos_pos less_trans[rotated])
    ultimately show ?thesis by (simp add: divide_le_eq_1)
  qed
  then show ?thesis using True
    by (simp add: normalize_max_def Let_def in_range_map_field list_all_iff)
next
  case False
  have "0 \<le> v \<and> v \<le> 1" if "row \<in> set m" "v \<in> set row" for row v
  proof -
    have "0 \<le> v" using assms that by (simp add: list_all_iff)
    moreover have "v \<le> field_max m" using that by (rule field_max_ge)
    moreover have "(1 / 10 ^ 10 :: real) \<le> 1" by simp
    ultimately show ?thesis using False by linarith
  qed
  then show ?thesis using False by (simp add: normalize_max_def Let_def in_range_iff)
qed

lemma rectangular_normalize_range: "rectangular h w m \<Longrightarrow> rectangular h w (normalize_range m)"
  by (simp add: normalize_range_def Let_def rectangular_map_field)

lemma rectangular_normalize_max: "rectangular h w m \<Longrightarrow> rectangular h w (normalize_max m)"
  by (simp add: normalize_max_def Let_def rectangular_map_field)

lemma ridged_octaves_nonneg:
  "0 \<le> amp \<Longrightarrow> 0 \<le> result \<Longrightarrow> 0 \<le> ridged_octaves sn X Y Z n amp freq result"
  by (induction n arbitrary: amp freq result) (simp_all add: Let_def)

lemma remap_unit:
  assumes "\<forall>y<h. \<forall>x<w. - 1 \<le> f x y \<and> f x y \<le> (1::real)"
  shows "in_range 0 1 (map_field (\<lambda>v. (v + 1) * 0.5) (grid w h f))"
proof -
  have "0 \<le> (f x y + 1) * 0.5 \<and> (f x y + 1) * 0.5 \<le> 1" if "y < h" "x < w" for x y
  proof -
    from assms that have "- 1 \<le> f x y" "f x y \<le> 1" by auto
    then show ?thesis by simp
  qed
  then show ?thesis by (simp add: map_field_def grid_def in_range_def list_all_length)
qed

lemma perlin_unit:
  assumes "perlin lib w h p sl bw = Inr f"
    and "field_max (perlin_raw lib w h p) - field_min (perlin_raw lib w h p) > 1 / 10 ^ 10
         \<or> in_range 0 1 (perlin_raw lib w h p)"
  shows "rectangular h w f \<and> in_range 0 1 f"
proof -
  have r: "rectangular h w (perlin_raw lib w h p)"
    by (simp add: perlin_raw_def Let_def rectangular_grid)
  from assms(1) have f: "f = seamless_opt sl bw (normalize_range (perlin_raw lib w h p))"
    by (simp add: perlin_def split: if_splits)
  show ?thesis unfolding f
    by (intro seamless_opt_keeps rectangular_normalize_range r normalize_range_unit assms(2))
qed

lemma fbm_unit:
  assumes "fbm lib w h p sl bw = Inr f"
    and "field_max (fbm_raw lib w h p) - field_min (fbm_raw lib w h p) > 1 / 10 ^ 10
         \<or> in_range 0 1 (fbm_raw lib w h p)"
  shows "rectangular h w f \<and> in_range 0 1 f"
proof -
  have r: "rectangular h w (fbm_raw lib w h p)"
    by (simp add: fbm_raw_def Let_def rectangular_grid)
  from assms(1) have f: "f = seamless_opt sl bw (normalize_range (fbm_raw lib w h p))"
    by (simp add: fbm_def split: if_splits)
  show ?thesis unfolding f
    by (intro seamless_opt_keeps rectangular_normalize_range r normalize_range_unit assms(2))
qed

lemma simplex_unit:
  assumes "simplex lib w h p sl bw = Inr f"
    and "\<forall>s x y z. - 1 \<le> simplex_noise3 lib s x y z \<and> simplex_noise3 lib s x y z \<le> 1"
  shows "rectangular h w f \<and> in_range 0 1 f"
proof -
  let ?m = "map_field (\<lambda>v. (v + 1) * 0.5) (simplex_raw lib w h p)"
  from assms(1) have f: "f = seamless_opt sl bw ?m"
    by (simp add: simplex_def split: if_splits)
  have r: "rectangular h w ?m"
    by (simp add: simplex_raw_def Let_def rectangular_grid rectangular_map_field)
  have u: "in_range 0 1 ?m"
    unfolding simplex_raw_def Let_def by (rule remap_unit) (simp add: assms(2))
  show ?thesis unfolding f by (intro seamless_opt_keeps r u)
qed

lemma domain_warp_unit:
  assumes "domain_warp lib w h p sl bw = Inr f"
    and "\<forall>s x y z. - 1 \<le> simplex_noise3 lib s x y z \<and> simplex_noise3 lib s x y z \<le> 1"
  shows "rectangular h w f \<and> in_range 0 1 f"
proof -
  let ?m = "map_field (\<lambda>v. (v + 1) * 0.5) (domain_warp_raw lib w h p)"
  from assms(1) have f: "f = seamless_opt sl bw ?m"
    by (simp add: domain_warp_def split: if_splits)
  have r: "rectangular h w ?m"
    by (simp add: domain_warp_raw_def Let_def rectangular_grid rectangular_map_field)
  have u: "in_range 0 1 ?m"
    unfolding domain_warp_raw_def Let_def by (rule remap_unit) (simp add: assms(2))
  show ?thesis unfolding f by (intro seamless_opt_keeps r u)
qed

lemma ridged_unit:
  assumes "ridged lib w h p sl bw = Inr f"
  shows "rectangular h w f \<and> in_range 0 1 f"
proof -
  from assms(1) have f: "f = seamless_opt sl bw (normalize_max (ridged_raw lib w h p))"
    by (simp add: ridged_def split: if_splits)
  have r: "rectangular h w (ridged_raw lib w h p)"
    by (simp add: ridged_raw_def Let_def rectangular_grid)
  have n: "list_all (list_all (\<lambda>v. 0 \<le> v)) (ridged_raw lib w h p)"
    by (simp add: ridged_raw_def Let_def grid_def list_all_length ridged_octaves_nonneg)
  show ?thesis unfolding f
    by (intro seamless_opt_keeps rectangular_normalize_max r normalize_max_unit n)
qed

lemma invert_between: "np_between 0 1 v \<Longrightarrow> np_between 0 1 (np_rsub 1 v)"
  by (cases v) (simp_all add: np_between_def)

lemma invert_unit: "np_in_range 0 1 m \<Longrightarrow> np_in_range 0 1 (map (map (np_rsub 1)) m)"
  by (simp add: np_in_range_def list_all_iff invert_between)

lemma turbulence_unit:
  assumes "h \<noteq> 0" "w \<noteq> 0" "p_scale p \<noteq> 0"
    and fin: "np_all_finite (turbulence_stored lib w h p)"
  shows "\<exists>f. turbulence lib w h p sl bw = Inr f \<and> rectangular h w f \<and> np_in_range 0 1 f"
proof -
  let ?pw = "opt_or 2 (p_power p)"
  let ?st = "\<lambda>val. store_float32 (np_power (Fin val) ?pw)"
  let ?val = "\<lambda>v. case v of Fin r \<Rightarrow> r | _ \<Rightarrow> 0"
  define m where "m = map (map (\<lambda>val. ?val (?st val))) (turbulence_abs lib w h p)"
  have st: "turbulence_stored lib w h p = map (map ?st) (turbulence_abs lib w h p)"
    by (simp add: turbulence_stored_def Let_def del: np_power.simps)
  have abs: "\<forall>row\<in>set (turbulence_abs lib w h p). \<forall>v\<in>set row. 0 \<le> v"
    by (auto simp: turbulence_abs_def grid_def Let_def)
  have finite: "\<forall>row\<in>set (turbulence_abs lib w h p). \<forall>v\<in>set row. np_finite (?st v)"
    using fin unfolding st by (simp add: np_all_finite_def list_all_iff)
  have bk: "Fin (?val (?st v)) = ?st v \<and> 0 \<le> ?val (?st v)"
    if "row \<in> set (turbulence_abs lib w h p)" "v \<in> set row" for row v
  proof -
    have "0 \<le> v" "np_finite (?st v)" using abs finite that by auto
    then show ?thesis using stored_cases[of v ?pw]
      by (auto simp add: np_finite_def simp del: np_power.simps)
  qed
  have eq: "turbulence_stored lib w h p = map (map Fin) m"
    unfolding st m_def using bk by (simp add: comp_def cong: map_cong)
  have rm: "rectangular h w m"
    unfolding m_def turbulence_abs_def Let_def grid_map by (rule rectangular_grid)
  have nn: "list_all (list_all (\<lambda>v. 0 \<le> v)) m"
    unfolding m_def using bk by (simp add: list_all_iff)
  have ne: "concat m \<noteq> []"
    unfolding m_def turbulence_abs_def Let_def grid_map
    by (rule concat_grid_nonempty[OF assms(1,2)])
  have rn: "rectangular h w (normalize_max m)" using rm by (rule rectangular_normalize_max)
  have un: "in_range 0 1 (normalize_max m)" using nn by (rule normalize_max_unit)
  have t: "turbulence lib w h p sl bw
             = Inr (map (map Fin) (seamless_opt sl bw (normalize_max m)))"
    using assms(1-3) np_normalize_max_fin[OF ne] seamless_np_fin[OF rn, of bw]
    by (simp add: turbulence_def eq seamless_opt_def)
  from seamless_opt_keeps[OF rn un, of sl bw] show ?thesis
    unfolding t by (simp add: rectangular_map np_in_range_fin)
qed

lemma turbulence_stored_finite:
  assumes "0 \<le> opt_or 2 (p_power p)"
    and "\<forall>s x y z. - 1 \<le> simplex_noise3 lib s x y z \<and> simplex_noise3 lib s x y z \<le> 1"
  shows "np_all_finite (turbulence_stored lib w h p)"
proof -
  have "np_finite (store_float32 (np_power (Fin \<bar>simplex_noise3 lib s x y z\<bar>)
          (opt_or 2 (p_power p))))" for s x y z
    using assms(2) by (intro np_power_unit_finite assms(1)) (simp_all add: abs_le_iff)
  then show ?thesis
    by (simp add: np_all_finite_def turbulence_stored_def turbulence_abs_def grid_def
        list_all_iff Let_def del: np_power.simps)
qed

lemma lift_unit:
  assumes "g = Inr f" "rectangular h w f \<and> in_range 0 1 f"
  shows "\<exists>f'. lift_field g = Inr f' \<and> rectangular h w f' \<and> np_in_range 0 1 f'"
  using assms by (simp add: lift_field_def rectangular_map np_in_range_fin)

text \<open>
  C1, as the code has it. For a supported type, a width and a height of at least 1, a
  positive scale and a simplex primitive with values in \<open>[-1, 1]\<close>, \<open>generate\<close>
  returns a field of the requested shape with every value finite and in \<open>[0, 1]\<close>,
  inverted or not, seamless or not, provided that
  for Perlin and FBM the raw field has a range above \<open>1e-10\<close> or lies in \<open>[0, 1]\<close>
  already (a raw field of a smaller range is passed on as it is), and that
  for Turbulence the power is not negative or no stored value \<open>val ** power\<close> is
  infinite.
\<close>

theorem noise_unit_range:
  assumes "1 \<le> w" and "1 \<le> h" and "0 < p_scale p"
    and "noise_type \<in> supported_types"
    and "\<forall>s x y z. - 1 \<le> simplex_noise3 lib s x y z \<and> simplex_noise3 lib s x y z \<le> 1"
    and "noise_type = ''Perlin'' \<longrightarrow>
           field_max (perlin_raw lib w h p) - field_min (perlin_raw lib w h p) > 1 / 10 ^ 10
           \<or> in_range 0 1 (perlin_raw lib w h p)"
    and "noise_type = ''FBM'' \<longrightarrow>
           field_max (fbm_raw lib w h p) - field_min (fbm_raw lib w h p) > 1 / 10 ^ 10
           \<or> in_range 0 1 (fbm_raw lib w h p)"
    and "noise_type = ''Turbulence'' \<longrightarrow>
           0 \<le> opt_or 2 (p_power p) \<or> np_all_finite (turbulence_stored lib w h p)"
  shows "\<exists>f. generate lib noise_type w h p seamless blend_width = Inr f
           \<and> rectangular h w f \<and> np_in_range 0 1 f"
proof -
  define body where "body =
       (if noise_type = ''Perlin'' then lift_field (perlin lib w h p seamless blend_width)
        else if noise_type = ''Simplex'' then lift_field (simplex lib w h p seamless blend_width)
        else if noise_type = ''FBM'' then lift_field (fbm lib w h p seamless blend_width)
        else if noise_type = ''Turbulence'' then turbulence lib w h p seamless blend_width
        else if noise_type = ''Ridged'' then lift_field (ridged lib w h p seamless blend_width)
        else if noise_type = ''Domain Warp''
          then lift_field (domain_warp lib w h p seamless blend_width)
        else Inr (replicate h (replicate w (Fin 0))))"
  have nz: "h \<noteq> 0" "w \<noteq> 0" "p_scale p \<noteq> 0" using assms(1-3) by simp_all
  let ?G = "\<exists>r. body = Inr r \<and> rectangular h w r \<and> np_in_range 0 1 r"
  have pe: ?G if pe: "noise_type = ''Perlin''"
  proof -
    obtain f where f: "perlin lib w h p seamless blend_width = Inr f"
      using nz by (simp add: perlin_def)
    from lift_unit[OF f perlin_unit[OF f]] assms(6) pe show ?thesis by (simp add: body_def)
  qed
  have si: ?G if si: "noise_type = ''Simplex''"
  proof -
    obtain f where f: "simplex lib w h p seamless blend_width = Inr f"
      using nz by (simp add: simplex_def)
    from lift_unit[OF f simplex_unit[OF f assms(5)]] si show ?thesis by (simp add: body_def)
  qed
  have fb: ?G if fb: "noise_type = ''FBM''"
  proof -
    obtain f where f: "fbm lib w h p seamless blend_width = Inr f"
      using nz by (simp add: fbm_def)
    from lift_unit[OF f fbm_unit[OF f]] assms(7) fb show ?thesis by (simp add: body_def)
  qed
  have tu: ?G if tu: "noise_type = ''Turbulence''"
  proof -
    have "np_all_finite (turbulence_stored lib w h p)"
      using assms(8) tu turbulence_stored_finite[OF _ assms(5)] by blast
    from turbulence_unit[OF nz this] tu show ?thesis by (simp add: body_def)
  qed
  have ri: ?G if ri: "noise_type = ''Ridged''"
  proof -
    obtain f where f: "ridged lib w h p seamless blend_width = Inr f"
      using nz by (simp add: ridged_def)
    from lift_unit[OF f ridged_unit[OF f]] ri show ?thesis by (simp add: body_def)
  qed
  have dw: ?G if dw: "noise_type = ''Domain Warp''"
  proof -
    obtain f where f: "domain_warp lib w h p seamless blend_width = Inr f"
      using nz by (simp add: domain_warp_def)
    from lift_unit[OF f domain_warp_unit[OF f assms(5)]] dw show ?thesis
      by (simp add: body_def)
  qed
  from assms(4) have "noise_type = ''Perlin'' \<or> noise_type = ''Simplex''
      \<or> noise_type = ''FBM'' \<or> noise_type = ''Turbulence''
      \<or> noise_type = ''Ridged'' \<or> noise_type = ''Domain Warp''"
    by (simp add: supported_types_def)
  then have ?G by (elim disjE) (erule pe si fb tu ri dw)+
  then obtain r where r: "body = Inr r" "rectangular h w r" "np_in_range 0 1 r" by blast
  have "generate lib noise_type w h p seamless blend_width
          = Inr (if opt_or False (p_invert p) then map (map (np_rsub 1)) r else r)"
    using r(1) unfolding generate_def Let_def body_def[symmetric] by simp
  then show ?thesis using r(2,3) by (simp add: invert_unit rectangular_map)
qed

lemma perlin_raw_demo: "perlin_raw ramp_lib 2 2 demo_params = [[1 / 2, 3 / 2], [1 / 2, 3 / 2]]"
  by (simp add: perlin_raw_def ramp_lib_def demo_params_def grid_def x_off_def y_off_def
      z_off_def opt_or_def upt_rec)

lemma generate_demo:
  "generate ramp_lib ''Perlin'' 2 2 demo_params False (1 / 10)
     = Inr [[Fin 0, Fin 1], [Fin 0, Fin 1]]"
  by (simp add: generate_def lift_field_def perlin_def perlin_raw_demo normalize_range_def
      field_min_def field_max_def map_field_def seamless_opt_def Let_def)
     (simp add: demo_params_def opt_or_def)

lemma turbulence_demo:
  "generate (flat_lib (1 / 2)) ''Turbulence'' 2 2 demo_params False (1 / 10)
     = Inr [[Fin (2500000000 / 2500000001), Fin (2500000000 / 2500000001)],
            [Fin (2500000000 / 2500000001), Fin (2500000000 / 2500000001)]]"
  by (simp add: generate_def turbulence_def turbulence_stored_def turbulence_abs_def
      np_normalize_max_def np_field_max_def flat_lib_def grid_def opt_or_def demo_params_def
      overflow64_def np_div_def upt_rec power2_eq_square)

theorem noise_unit_range_witness:
  "1 \<le> (2::nat) \<and> 0 < p_scale demo_params
   \<and> ''Perlin'' \<in> supported_types \<and> ''Turbulence'' \<in> supported_types
   \<and> 0 \<le> opt_or 2 (p_power demo_params)
   \<and> generate ramp_lib ''Perlin'' 2 2 demo_params False (1 / 10)
       = Inr [[Fin 0, Fin 1], [Fin 0, Fin 1]]
   \<and> rectangular 2 2 [[Fin 0, Fin 1], [Fin 0, Fin 1]]
   \<and> np_in_range 0 1 [[Fin 0, Fin 1], [Fin 0, Fin 1]]
   \<and> generate (flat_lib (1 / 2)) ''Turbulence'' 2 2 demo_params False (1 / 10)
       = Inr [[Fin (2500000000 / 2500000001), Fin (2500000000 / 2500000001)],
              [Fin (2500000000 / 2500000001), Fin (2500000000 / 2500000001)]]
   \<and> np_in_range 0 1 [[Fin (2500000000 / 2500000001), Fin (2500000000 / 2500000001)],
                       [Fin (2500000000 / 2500000001), Fin (2500000000 / 2500000001)]]"
proof -
  have s: "\<forall>s x y z. - 1 \<le> simplex_noise3 ramp_lib s x y z
                     \<and> simplex_noise3 ramp_lib s x y z \<le> 1"
    by (simp add: ramp_lib_def)
  have s': "\<forall>s x y z. - 1 \<le> simplex_noise3 (flat_lib (1 / 2)) s x y z
                      \<and> simplex_noise3 (flat_lib (1 / 2)) s x y z \<le> 1"
    by (simp add: flat_lib_def)
  have d: "''Perlin'' = ''Perlin'' \<longrightarrow>
      field_max (perlin_raw ramp_lib 2 2 demo_params)
        - field_min (perlin_raw ramp_lib 2 2 demo_params) > 1 / 10 ^ 10
      \<or> in_range 0 1 (perlin_raw ramp_lib 2 2 demo_params)"
    by (simp add: perlin_raw_demo field_max_def field_min_def)
  have t: "''Perlin'' \<in> supported_types" by (simp add: supported_types_def)
  have t': "''Turbulence'' \<in> supported_types" by (simp add: supported_types_def)
  have sc: "0 < p_scale demo_params" by (simp add: demo_params_def)
  have pw: "0 \<le> opt_or 2 (p_power demo_params)" by (simp add: demo_params_def opt_or_def)
  from noise_unit_range[of 2 2 demo_params "''Perlin''" ramp_lib False "1 / 10", OF _ _ sc t s d]
  have a: "rectangular 2 2 [[Fin 0, Fin 1], [Fin 0, Fin 1]]
        \<and> np_in_range 0 1 [[Fin 0, Fin 1], [Fin 0, Fin 1]]"
    by (simp add: generate_demo)
  from noise_unit_range[of 2 2 demo_params "''Turbulence''" "flat_lib (1 / 2)" False "1 / 10",
      OF _ _ sc t' s'] pw
  have b: "np_in_range 0 1 [[Fin (2500000000 / 2500000001), Fin (2500000000 / 2500000001)],
                          [Fin (2500000000 / 2500000001), Fin (2500000000 / 2500000001)]]"
    by (simp add: turbulence_demo)
  from a b show ?thesis using sc t t' pw generate_demo turbulence_demo by simp
qed

text \<open>
  C1 as stated fails in the degenerate case: a one-pixel Perlin field has range 0, so
  the raw value, here \<open>-1/2\<close>, is returned as it is.
\<close>

theorem noise_unit_range_counterexample:
  "0 < p_scale demo_params
   \<and> generate (flat_lib (- 1 / 2)) ''Perlin'' 1 1 demo_params False (1 / 10)
       = Inr [[Fin (- 1 / 2)]]
   \<and> \<not> np_in_range 0 1 [[Fin (- 1 / 2)]]"
  by (simp add: generate_def lift_field_def perlin_def perlin_raw_def flat_lib_def grid_def
      normalize_range_def field_min_def field_max_def seamless_opt_def Let_def
      np_in_range_def np_between_def)
     (simp add: demo_params_def opt_or_def)

text \<open>
  Outside the hypotheses above: Turbulence with a negative power. A noise value of 0
  gives \<open>0 ** -1 = inf\<close>, the maximum is infinite, and \<open>inf / inf\<close> is NaN.
\<close>

lemma turbulence_negative_power:
  "generate (flat_lib 0) ''Turbulence'' 1 1 (demo_params\<lparr>p_power := Some (- 1)\<rparr>) False (1 / 10)
     = Inr [[NaN]]"
  by (simp add: generate_def turbulence_def turbulence_stored_def turbulence_abs_def
      np_normalize_max_def np_field_max_def flat_lib_def grid_def opt_or_def demo_params_def)

text \<open>
  C3, as the code has it. A type name outside the supported set gives a field of the
  requested shape that is 0 everywhere when \<open>invert\<close> is not set, and 1 everywhere when
  it is: the inversion runs after the dispatch, for every type.
\<close>

theorem generate_unknown_type:
  assumes "noise_type \<notin> supported_types"
  shows "generate lib noise_type w h p seamless blend_width
           = Inr (replicate h (replicate w (Fin (if opt_or False (p_invert p) then 1 else 0))))"
  using assms by (simp add: generate_def supported_types_def)

theorem generate_unknown_type_witness:
  "''Voronoi'' \<notin> supported_types
   \<and> generate (flat_lib 0) ''Voronoi'' 3 2 demo_params True (1 / 10)
       = Inr [[Fin 0, Fin 0, Fin 0], [Fin 0, Fin 0, Fin 0]]"
  using generate_unknown_type[of "''Voronoi''" "flat_lib 0" 3 2 demo_params True "1 / 10"]
  by (simp add: supported_types_def demo_params_def opt_or_def numeral_3_eq_3 numeral_2_eq_2)

text \<open>C3 as stated fails when \<open>invert\<close> is set: the field is 1 everywhere.\<close>

theorem generate_unknown_type_counterexample:
  "generate (flat_lib 0) ''Voronoi'' 2 1 (demo_params\<lparr>p_invert := Some True\<rparr>) False (1 / 10)
     = Inr [[Fin 1, Fin 1]]"
  by (simp add: generate_def opt_or_def numeral_2_eq_2)

lemma off_seed:
  "x_off (p\<lparr>p_seed := s\<rparr>) = x_off p" "y_off (p\<lparr>p_seed := s\<rparr>) = y_off p"
  "z_off (p\<lparr>p_seed := s\<rparr>) = z_off p"
  by (simp_all add: x_off_def y_off_def z_off_def)

lemma perlin_seed:
  "perlin lib w h (p\<lparr>p_seed := s + 256\<rparr>) sl bw = perlin lib w h (p\<lparr>p_seed := s\<rparr>) sl bw"
  by (simp add: perlin_def perlin_raw_def off_seed)

lemma simplex_seed:
  "simplex lib w h (p\<lparr>p_seed := s + 256\<rparr>) sl bw = simplex lib w h (p\<lparr>p_seed := s\<rparr>) sl bw"
  by (simp add: simplex_def simplex_raw_def off_seed)

lemma fbm_seed:
  "fbm lib w h (p\<lparr>p_seed := s + 256\<rparr>) sl bw = fbm lib w h (p\<lparr>p_seed := s\<rparr>) sl bw"
  by (simp add: fbm_def fbm_raw_def off_seed)

lemma turbulence_seed:
  "turbulence lib w h (p\<lparr>p_seed := s + 256\<rparr>) sl bw
     = turbulence lib w h (p\<lparr>p_seed := s\<rparr>) sl bw"
  by (simp add: turbulence_def turbulence_stored_def turbulence_abs_def off_seed)

lemma ridged_seed:
  "ridged lib w h (p\<lparr>p_seed := s + 256\<rparr>) sl bw = ridged lib w h (p\<lparr>p_seed := s\<rparr>) sl bw"
  by (simp add: ridged_def ridged_raw_def off_seed)

lemma domain_warp_seed:
  "domain_warp lib w h (p\<lparr>p_seed := s + 256\<rparr>) sl bw
     = domain_warp lib w h (p\<lparr>p_seed := s\<rparr>) sl bw"
  by (simp add: domain_warp_def domain_warp_raw_def off_seed)

text \<open>
  C10. \<open>generate\<close> with seed \<open>s + 256\<close> returns what it returns with seed \<open>s\<close>, for
  every type name, size and parameter bag: each generator reads the seed modulo 256.
\<close>

theorem seed_mod_256:
  "generate lib noise_type w h (p\<lparr>p_seed := s + 256\<rparr>) seamless blend_width
     = generate lib noise_type w h (p\<lparr>p_seed := s\<rparr>) seamless blend_width"
  by (simp add: generate_def perlin_seed simplex_seed fbm_seed turbulence_seed ridged_seed
      domain_warp_seed cong: sum.case_cong)

section \<open>The layer blender\<close>

lemma map2_fst:
  "length xs = length ys \<Longrightarrow> (\<And>x y. f x y = x) \<Longrightarrow> map2 f xs ys = xs"
  by (induction xs ys rule: list_induct2) auto

lemma map2_snd:
  "length xs = length ys \<Longrightarrow> (\<And>x y. f x y = y) \<Longrightarrow> map2 f xs ys = ys"
  by (induction xs ys rule: list_induct2) auto

lemma zip_with_fst:
  assumes "rectangular h w a" "rectangular h w b" "\<And>x y. f x y = x"
  shows "zip_with f a b = a"
proof -
  have len: "length a = length b" using assms(1,2) by (simp add: rectangular_def)
  have "list_all (\<lambda>r. length r = w) a \<Longrightarrow> list_all (\<lambda>r. length r = w) b
        \<Longrightarrow> map2 (\<lambda>ra rb. map2 f ra rb) a b = a"
    using len by (induction a b rule: list_induct2) (auto simp: map2_fst assms(3))
  then show ?thesis using assms(1,2) by (simp add: zip_with_def rectangular_def)
qed

lemma zip_with_snd:
  assumes "rectangular h w a" "rectangular h w b" "\<And>x y. f x y = y"
  shows "zip_with f a b = b"
proof -
  have len: "length a = length b" using assms(1,2) by (simp add: rectangular_def)
  have "list_all (\<lambda>r. length r = w) a \<Longrightarrow> list_all (\<lambda>r. length r = w) b
        \<Longrightarrow> map2 (\<lambda>ra rb. map2 f ra rb) a b = b"
    using len by (induction a b rule: list_induct2) (auto simp: map2_snd assms(3))
  then show ?thesis using assms(1,2) by (simp add: zip_with_def rectangular_def)
qed

text \<open>
  C9. For two fields of one shape, Mix with weight 0 returns the first field and Mix
  with weight 1 returns the second.
\<close>

theorem blend_mix_identity:
  assumes "rectangular h w A" and "rectangular h w B"
  shows "blend_noise A B 0 ''Mix'' = A \<and> blend_noise A B 1 ''Mix'' = B"
  using zip_with_fst[OF assms, of "\<lambda>a b. a * (1 - 0) + b * 0"]
        zip_with_snd[OF assms, of "\<lambda>a b. a * (1 - 1) + b * 1"]
  by (simp add: blend_noise_def)

theorem blend_mix_identity_witness:
  "rectangular 2 2 [[0, 1 / 2], [1, 1 / 4 :: real]] \<and> rectangular 2 2 [[1, 1], [0, 3 / 4 :: real]]
   \<and> blend_noise [[0, 1 / 2], [1, 1 / 4]] [[1, 1], [0, 3 / 4]] 0 ''Mix'' = [[0, 1 / 2], [1, 1 / 4]]
   \<and> blend_noise [[0, 1 / 2], [1, 1 / 4]] [[1, 1], [0, 3 / 4]] 1 ''Mix'' = [[1, 1], [0, 3 / 4]]"
  using blend_mix_identity[of 2 2 "[[0, 1 / 2], [1, 1 / 4]]" "[[1, 1], [0, 3 / 4]]"]
  by (simp add: rectangular_def)

section \<open>The parameter animator\<close>

text \<open>Rounding to a double, evaluated.\<close>

lemma floor_log2_eq:
  assumes "2 powi k \<le> x" "x < 2 powi (k + 1)"
  shows "\<lfloor>log 2 x\<rfloor> = k"
proof -
  have x: "0 < x" using assms(1) by (rule less_le_trans[rotated]) simp
  have a: "(2::real) powr real_of_int k = 2 powi k"
    by (simp add: powr_real_of_int')
  have "(2::real) powr real_of_int (k + 1) = 2 powi (k + 1)"
    by (rule powr_real_of_int') simp_all
  then have b: "(2::real) powr (real_of_int k + 1) = 2 powi (k + 1)" by simp
  show ?thesis using assms x floor_log_eq_powr_iff[of x 2 k] a b by simp
qed

lemma double_round_eval:
  assumes lo: "2 powi e \<le> \<bar>x\<bar>" and hi: "\<bar>x\<bar> < 2 powi (e + 1)"
    and e: "- 1022 \<le> e" "e \<le> 1022"
    and m: "round_half_even (x / 2 powi (e - 52)) = m" "\<bar>m\<bar> \<le> 2 ^ 53"
  shows "double_round x = Fin (real_of_int m * 2 powi (e - 52))"
proof -
  have "(0::real) < 2 powi e" by simp
  with lo have "0 < \<bar>x\<bar>" by linarith
  then have x0: "x \<noteq> 0" by simp
  have fl: "\<lfloor>log 2 \<bar>x\<bar>\<rfloor> = e" using lo hi by (rule floor_log2_eq)
  have "\<bar>real_of_int m * 2 powi (e - 52)\<bar> = real_of_int \<bar>m\<bar> * 2 powi (e - 52)"
    by (simp add: abs_mult)
  also have "\<dots> \<le> 2 ^ 53 * 2 powi (e - 52)"
    using m(2) by (intro mult_right_mono) (simp_all add: of_int_le_iff[of _ "2 ^ 53", simplified])
  also have "\<dots> = 2 powi (e + 1)"
    using power_int_add[of "2::real" 53 "e - 52"] by (simp add: algebra_simps)
  also have "\<dots> \<le> 2 powi 1023" using e by (intro power_int_increasing) simp_all
  also have "\<dots> < 2 ^ 1024" by simp
  finally have "\<not> 2 ^ 1024 \<le> \<bar>real_of_int m * 2 powi (e - 52)\<bar>" by simp
  then show ?thesis using x0 fl e m(1) by (simp add: double_round_def Let_def max_def)
qed

lemma double_round_1: "double_round 1 = Fin 1"
proof -
  have "double_round 1 = Fin (real_of_int (2 ^ 52) * 2 powi (0 - 52))"
    by (rule double_round_eval) (simp_all add: round_half_even_def power_int_minus)
  then show ?thesis by (simp add: power_int_minus)
qed

lemma double_round_quarter: "double_round (1 / 4) = Fin (1 / 4)"
proof -
  have "double_round (1 / 4) = Fin (real_of_int (2 ^ 52) * 2 powi (- 2 - 52))"
    by (rule double_round_eval) (simp_all add: round_half_even_def power_int_minus)
  then show ?thesis by (simp add: power_int_minus)
qed

lemma double_round_half: "double_round (1 / 2) = Fin (1 / 2)"
proof -
  have "double_round (1 / 2) = Fin (real_of_int (2 ^ 52) * 2 powi (- 1 - 52))"
    by (rule double_round_eval) (simp_all add: round_half_even_def power_int_minus)
  then show ?thesis by (simp add: power_int_minus)
qed

lemma double_round_three_quarters: "double_round (3 / 4) = Fin (3 / 4)"
proof -
  have "double_round (3 / 4) = Fin (real_of_int (3 * 2 ^ 51) * 2 powi (- 1 - 52))"
    by (rule double_round_eval) (simp_all add: round_half_even_def power_int_minus)
  then show ?thesis by (simp add: power_int_minus)
qed

text \<open>The doubles that Python writes 0.8 and 0.3.\<close>

lemma double_0_8: "double_round (8 / 10) = Fin (3602879701896397 / 2 ^ 52)"
proof -
  have "double_round (8 / 10) = Fin (real_of_int 7205759403792794 * 2 powi (- 1 - 52))"
    by (rule double_round_eval) (simp_all add: round_half_even_def power_int_minus)
  then show ?thesis by (simp add: power_int_minus)
qed

lemma double_0_3: "double_round (3 / 10) = Fin (5404319552844595 / 2 ^ 54)"
proof -
  have "double_round (3 / 10) = Fin (real_of_int 5404319552844595 * 2 powi (- 2 - 52))"
    by (rule double_round_eval) (simp_all add: round_half_even_def power_int_minus)
  then show ?thesis by (simp add: power_int_minus)
qed

lemma drift_start: "double_round (3602879701896397 / 2 ^ 52) = Fin (3602879701896397 / 2 ^ 52)"
proof -
  have "double_round (3602879701896397 / 2 ^ 52)
          = Fin (real_of_int 7205759403792794 * 2 powi (- 1 - 52))"
    by (rule double_round_eval) (simp_all add: round_half_even_def power_int_minus)
  then show ?thesis by (simp add: power_int_minus)
qed

lemma drift_end: "double_round (5404319552844595 / 2 ^ 54) = Fin (5404319552844595 / 2 ^ 54)"
proof -
  have "double_round (5404319552844595 / 2 ^ 54)
          = Fin (real_of_int 5404319552844595 * 2 powi (- 2 - 52))"
    by (rule double_round_eval) (simp_all add: round_half_even_def power_int_minus)
  then show ?thesis by (simp add: power_int_minus)
qed

text \<open>
  The difference \<open>0.3 - 0.8\<close> of the two doubles is \<open>-(2^53 + 1) / 2^54\<close>, halfway
  between two doubles; it rounds to \<open>-1/2\<close>.
\<close>

lemma drift_difference:
  "f_sub (Fin (5404319552844595 / 2 ^ 54)) (Fin (3602879701896397 / 2 ^ 52)) = Fin (- 1 / 2)"
proof -
  have "double_round (5404319552844595 / 2 ^ 54 + - (3602879701896397 / 2 ^ 52))
          = Fin (real_of_int (- (2 ^ 52)) * 2 powi (- 1 - 52))"
    by (rule double_round_eval) (simp_all add: round_half_even_def power_int_minus)
  then show ?thesis by (simp add: f_sub_def power_int_minus)
qed

lemma double_round_minus_half: "double_round (- 1 / 2) = Fin (- 1 / 2)"
proof -
  have "double_round (- 1 / 2) = Fin (real_of_int (- (2 ^ 52)) * 2 powi (- 1 - 52))"
    by (rule double_round_eval) (simp_all add: round_half_even_def power_int_minus)
  then show ?thesis by (simp add: power_int_minus)
qed

lemma drift_sum:
  "double_round (3602879701896397 / 2 ^ 52 + - 1 / 2) = Fin (5404319552844596 / 2 ^ 54)"
proof -
  have "double_round (3602879701896397 / 2 ^ 52 + - 1 / 2)
          = Fin (real_of_int 5404319552844596 * 2 powi (- 2 - 52))"
    by (rule double_round_eval) (simp_all add: round_half_even_def power_int_minus)
  then show ?thesis by (simp add: power_int_minus)
qed

lemma int_truediv_zero: "b \<noteq> 0 \<Longrightarrow> int_truediv 0 b = Inr (Fin 0)"
  by (simp add: int_truediv_def double_round_def)

lemma int_truediv_self: "b \<noteq> 0 \<Longrightarrow> int_truediv b b = Inr (Fin 1)"
  by (simp add: int_truediv_def double_round_1)

text \<open>
  C8, as the code has it. With animation enabled, style Linear and curve Linear, and a
  start and an end value that are doubles: the value at frame 0 is the start value, for
  every frame count (one frame included), as long as \<open>end - start\<close> does not
  overflow; the value at frame \<open>N - 1\<close> of \<open>N > 1\<close> frames is the double
  \<open>start + (end - start) * 1.0\<close>, which is the end value whenever the difference
  \<open>end - start\<close> is itself a double, and may miss it by a rounding otherwise.
\<close>

theorem animator_boundary:
  assumes "get_or False (anim_enabled st) key"
    and "get_or ''Linear'' (anim_style st) key = ''Linear''"
    and "get_or ''Linear'' (anim_curve st) key = ''Linear''"
    and "double_round (get_or 0 (anim_start st) key) = Fin (get_or 0 (anim_start st) key)"
    and "double_round (get_or 1 (anim_end st) key) = Fin (get_or 1 (anim_end st) key)"
  shows "(np_finite (f_sub (Fin (get_or 1 (anim_end st) key)) (Fin (get_or 0 (anim_start st) key)))
          \<longrightarrow> calculate_animated_value rnd math_pow st key 0 N
                = Inr (Fin (get_or 0 (anim_start st) key)))
       \<and> (1 < N \<longrightarrow>
            calculate_animated_value rnd math_pow st key (N - 1) N
              = Inr (f_add (Fin (get_or 0 (anim_start st) key))
                       (f_mul (f_sub (Fin (get_or 1 (anim_end st) key))
                                     (Fin (get_or 0 (anim_start st) key)))
                              (Fin 1))))
       \<and> (1 < N \<longrightarrow>
            double_round (get_or 1 (anim_end st) key - get_or 0 (anim_start st) key)
              = Fin (get_or 1 (anim_end st) key - get_or 0 (anim_start st) key)
            \<longrightarrow> calculate_animated_value rnd math_pow st key (N - 1) N
                  = Inr (Fin (get_or 1 (anim_end st) key)))"
proof -
  let ?s = "get_or 0 (anim_start st) key" and ?e = "get_or 1 (anim_end st) key"
  have p0: "(if N \<le> 1 then Inr (Fin 0) else int_truediv 0 (N - 1)) = Inr (Fin 0)"
    by (simp add: int_truediv_zero)
  have A: "calculate_animated_value rnd math_pow st key 0 N = Inr (Fin ?s)"
    if "np_finite (f_sub (Fin ?e) (Fin ?s))"
  proof -
    from that obtain d where d: "f_sub (Fin ?e) (Fin ?s) = Fin d"
      by (cases "f_sub (Fin ?e) (Fin ?s)") (simp_all add: np_finite_def)
    have "f_add (Fin ?s) (f_mul (Fin d) (Fin 0)) = Fin ?s"
      using assms(4) by (simp add: double_round_def)
    then show ?thesis using assms(1-3) p0 d
      by (simp add: calculate_animated_value_def apply_curve_def Let_def)
  qed
  have B: "calculate_animated_value rnd math_pow st key (N - 1) N
              = Inr (f_add (Fin ?s) (f_mul (f_sub (Fin ?e) (Fin ?s)) (Fin 1)))" if "1 < N"
    using assms(1-3) that int_truediv_self[of "N - 1"]
    by (simp add: calculate_animated_value_def apply_curve_def Let_def)
  have C: "calculate_animated_value rnd math_pow st key (N - 1) N = Inr (Fin ?e)"
    if "1 < N" "double_round (?e - ?s) = Fin (?e - ?s)"
  proof -
    have "f_sub (Fin ?e) (Fin ?s) = Fin (?e - ?s)" using that(2) by (simp add: f_sub_def)
    then have "f_add (Fin ?s) (f_mul (f_sub (Fin ?e) (Fin ?s)) (Fin 1)) = Fin ?e"
      using that(2) assms(5) by simp
    then show ?thesis using B[OF that(1)] by simp
  qed
  show ?thesis using A B C by blast
qed

lemma demo_anim_facts:
  "get_or False (anim_enabled demo_anim) ''radius''"
  "get_or ''Linear'' (anim_style demo_anim) ''radius'' = ''Linear''"
  "get_or ''Linear'' (anim_curve demo_anim) ''radius'' = ''Linear''"
  "get_or 0 (anim_start demo_anim) ''radius'' = 1 / 4"
  "get_or 1 (anim_end demo_anim) ''radius'' = 3 / 4"
  by (simp_all add: demo_anim_def get_or_def)

theorem animator_boundary_witness:
  "get_or False (anim_enabled demo_anim) ''radius''
   \<and> get_or ''Linear'' (anim_style demo_anim) ''radius'' = ''Linear''
   \<and> get_or ''Linear'' (anim_curve demo_anim) ''radius'' = ''Linear''
   \<and> double_round (1 / 4) = Fin (1 / 4) \<and> double_round (3 / 4) = Fin (3 / 4)
   \<and> double_round (3 / 4 - 1 / 4) = Fin (3 / 4 - 1 / 4)
   \<and> calculate_animated_value (\<lambda>frame. 0) square_pow demo_anim ''radius'' 0 5 = Inr (Fin (1 / 4))
   \<and> calculate_animated_value (\<lambda>frame. 0) square_pow demo_anim ''radius'' 4 5 = Inr (Fin (3 / 4))
   \<and> calculate_animated_value (\<lambda>frame. 0) square_pow demo_anim ''radius'' 0 1 = Inr (Fin (1 / 4))"
proof -
  note f = demo_anim_facts
  have s: "double_round (get_or 0 (anim_start demo_anim) ''radius'')
             = Fin (get_or 0 (anim_start demo_anim) ''radius'')"
    and e: "double_round (get_or 1 (anim_end demo_anim) ''radius'')
             = Fin (get_or 1 (anim_end demo_anim) ''radius'')"
    by (simp_all add: f(4,5) double_round_quarter double_round_three_quarters)
  have d: "double_round (3 / 4 - 1 / 4) = Fin (3 / 4 - 1 / 4)"
    using double_round_half by simp
  have fin: "np_finite (f_sub (Fin (3 / 4)) (Fin (1 / 4)))"
    using double_round_half by (simp add: f_sub_def np_finite_def)
  note ab5 = animator_boundary[OF f(1,2,3) s e, of "\<lambda>frame. 0" square_pow 5, unfolded f(4,5)]
  note ab1 = animator_boundary[OF f(1,2,3) s e, of "\<lambda>frame. 0" square_pow 1, unfolded f(4,5)]
  have n: "(1::int) < 5" by simp
  from ab5 fin
  have v0: "calculate_animated_value (\<lambda>frame. 0) square_pow demo_anim ''radius'' 0 5
              = Inr (Fin (1 / 4))"
    by blast
  from ab5 n d
  have v4: "calculate_animated_value (\<lambda>frame. 0) square_pow demo_anim ''radius'' (5 - 1) 5
              = Inr (Fin (3 / 4))"
    by blast
  from ab1 fin
  have v1: "calculate_animated_value (\<lambda>frame. 0) square_pow demo_anim ''radius'' 0 1
              = Inr (Fin (1 / 4))"
    by blast
  show ?thesis
    using f(1,2,3) d double_round_quarter double_round_three_quarters v0 v4 v1 by simp
qed

lemma drift_anim_facts:
  "get_or False (anim_enabled drift_anim) ''radius''"
  "get_or ''Linear'' (anim_style drift_anim) ''radius'' = ''Linear''"
  "get_or ''Linear'' (anim_curve drift_anim) ''radius'' = ''Linear''"
  "get_or 0 (anim_start drift_anim) ''radius'' = 3602879701896397 / 2 ^ 52"
  "get_or 1 (anim_end drift_anim) ''radius'' = 5404319552844595 / 2 ^ 54"
  by (simp_all add: drift_anim_def get_or_def)

text \<open>
  C8 as stated fails at the last frame: from 0.8 to 0.3, frame 4 of 5 gives
  \<open>0.30000000000000004\<close>, the double after 0.3.
\<close>

theorem animator_boundary_counterexample:
  "double_round (8 / 10) = Fin (get_or 0 (anim_start drift_anim) ''radius'')
   \<and> double_round (3 / 10) = Fin (get_or 1 (anim_end drift_anim) ''radius'')
   \<and> calculate_animated_value (\<lambda>frame. 0) square_pow drift_anim ''radius'' 4 5
       = Inr (Fin (5404319552844596 / 2 ^ 54))
   \<and> calculate_animated_value (\<lambda>frame. 0) square_pow drift_anim ''radius'' 4 5
       \<noteq> Inr (Fin (get_or 1 (anim_end drift_anim) ''radius''))"
proof -
  note f = drift_anim_facts
  have t: "int_truediv 4 4 = Inr (Fin 1)" by (rule int_truediv_self) simp
  have m: "f_mul (Fin (- 1 / 2)) (Fin 1) = Fin (- 1 / 2)"
    using double_round_minus_half by simp
  have a: "f_add (Fin (3602879701896397 / 2 ^ 52)) (Fin (- 1 / 2))
             = Fin (5404319552844596 / 2 ^ 54)"
    using drift_sum by simp
  have v: "calculate_animated_value (\<lambda>frame. 0) square_pow drift_anim ''radius'' 4 5
       = Inr (Fin (5404319552844596 / 2 ^ 54))"
    using t drift_difference m a
    by (simp only: calculate_animated_value_def Let_def f) (simp add: apply_curve_def)
  have s8: "double_round (8 / 10) = Fin (get_or 0 (anim_start drift_anim) ''radius'')"
    unfolding f(4) by (rule double_0_8)
  have e3: "double_round (3 / 10) = Fin (get_or 1 (anim_end drift_anim) ''radius'')"
    unfolding f(5) by (rule double_0_3)
  have ne: "calculate_animated_value (\<lambda>frame. 0) square_pow drift_anim ''radius'' 4 5
       \<noteq> Inr (Fin (get_or 1 (anim_end drift_anim) ''radius''))"
    unfolding v f(5) by simp
  show ?thesis using v s8 e3 ne by blast
qed

section \<open>The atlas packer\<close>

lemma ceil_sqrt_17: "\<lceil>sqrt 17\<rceil> = 5"
proof -
  have "4 < sqrt 17" by (rule real_less_rsqrt) simp
  moreover have "sqrt 17 \<le> 5" by (rule real_le_lsqrt) simp_all
  ultimately show ?thesis by (simp add: ceiling_unique)
qed

lemma auto_square_cover:
  assumes "1 \<le> (n::int)"
  defines "c \<equiv> \<lceil>sqrt (real_of_int n)\<rceil>"
  shows "1 \<le> c" and "n \<le> c * \<lceil>real_of_int n / real_of_int c\<rceil>"
proof -
  have "1 \<le> sqrt (real_of_int n)" using assms(1) by simp
  then have "0 < sqrt (real_of_int n)" by linarith
  then show c1: "1 \<le> c" unfolding c_def by (simp add: ceiling_le_iff[symmetric] less_ceiling_iff)
  then have cpos: "0 < real_of_int c" by simp
  have "real_of_int n / real_of_int c \<le> real_of_int \<lceil>real_of_int n / real_of_int c\<rceil>"
    by (rule le_of_int_ceiling)
  then have "real_of_int n \<le> real_of_int \<lceil>real_of_int n / real_of_int c\<rceil> * real_of_int c"
    using cpos by (simp only: pos_divide_le_eq)
  then have "real_of_int n \<le> real_of_int (c * \<lceil>real_of_int n / real_of_int c\<rceil>)"
    by (simp add: mult.commute)
  then show "n \<le> c * \<lceil>real_of_int n / real_of_int c\<rceil>" by linarith
qed

text \<open>
  C7. For a frame count of at least 1, the square layout (every mode name other than
  Manual, Row Only and Column Only in the sprite tool, and the only layout of the noise
  tool's atlas export) has \<open>cols = ceil(sqrt(n))\<close> and \<open>rows = ceil(n / cols)\<close>, the grid
  holds every frame, and 17 frames give 5 columns and 4 rows.
\<close>

theorem auto_square_layout:
  assumes "1 \<le> n" and "mode \<notin> {''Manual'', ''Row Only'', ''Column Only''}"
  shows "\<exists>cols rows. auto_calculate_atlas_layout mode n cur = Inr (cols, rows)
           \<and> export_atlas_grid n = Inr (cols, rows)
           \<and> cols = \<lceil>sqrt (real_of_int n)\<rceil>
           \<and> rows = \<lceil>real_of_int n / real_of_int cols\<rceil>
           \<and> n \<le> cols * rows
           \<and> (n = 17 \<longrightarrow> cols = 5 \<and> rows = 4)"
proof -
  let ?c = "\<lceil>sqrt (real_of_int n)\<rceil>"
  let ?r = "\<lceil>real_of_int n / real_of_int ?c\<rceil>"
  from auto_square_cover[OF assms(1)] have c: "1 \<le> ?c" "n \<le> ?c * ?r" by simp_all
  then have c0: "?c \<noteq> 0" by linarith
  have a: "auto_calculate_atlas_layout mode n cur = Inr (?c, ?r)"
    using assms c0 by (simp add: auto_calculate_atlas_layout_def Let_def)
  have e: "export_atlas_grid n = Inr (?c, ?r)"
    using assms c0 by (simp add: export_atlas_grid_def Let_def)
  have s: "n = 17 \<longrightarrow> ?c = 5 \<and> ?r = 4"
    using ceil_sqrt_17 by (auto simp: ceiling_unique)
  show ?thesis using a e c(2) s by blast
qed

theorem auto_square_layout_witness:
  "(1::int) \<le> 17 \<and> ''Auto (Square)'' \<notin> {''Manual'', ''Row Only'', ''Column Only''}
   \<and> auto_calculate_atlas_layout ''Auto (Square)'' 17 (4, 4) = Inr (5, 4)
   \<and> export_atlas_grid 17 = Inr (5, 4) \<and> (17::int) \<le> 5 * 4"
proof -
  have m: "''Auto (Square)'' \<notin> {''Manual'', ''Row Only'', ''Column Only''}" by simp
  from auto_square_layout[of 17 "''Auto (Square)''" "(4, 4)", OF _ m]
  have "auto_calculate_atlas_layout ''Auto (Square)'' 17 (4, 4) = Inr (5, 4)
        \<and> export_atlas_grid 17 = Inr (5, 4)"
    by auto
  then show ?thesis by simp
qed

section \<open>Sequence naming\<close>

lemma length_str_nat_mono_aux: "\<forall>i\<le>n. length (str_nat i) \<le> length (str_nat n)"
proof (induction n rule: str_nat.induct)
  case (1 n)
  show ?case
  proof (intro allI impI)
    fix i assume le: "i \<le> n"
    show "length (str_nat i) \<le> length (str_nat n)"
    proof (cases "n < 10")
      case True
      then have "i < 10" using le by simp
      then show ?thesis using True by (simp add: str_nat.simps[of i] str_nat.simps[of n])
    next
      case False
      show ?thesis
      proof (cases "i < 10")
        case True
        then show ?thesis using False by (simp add: str_nat.simps[of i] str_nat.simps[of n])
      next
        case i: False
        have "i div 10 \<le> n div 10" using le by (rule div_le_mono)
        with 1 False have "length (str_nat (i div 10)) \<le> length (str_nat (n div 10))" by simp
        then show ?thesis using False i by (simp add: str_nat.simps[of i] str_nat.simps[of n])
      qed
    qed
  qed
qed

lemma length_str_nat_mono: "i \<le> n \<Longrightarrow> length (str_nat i) \<le> length (str_nat n)"
  using length_str_nat_mono_aux by blast

lemma length_format_0d: "length (format_0d width i) = max width (length (str_nat i))"
  by (simp add: format_0d_def)

lemma str_nat_0: "str_nat 0 = ''0''" by code_simp

lemma str_nat_7: "str_nat 7 = ''7''" by code_simp

lemma str_nat_9: "str_nat 9 = ''9''" by code_simp

lemma str_nat_10: "str_nat 10 = ''10''" by code_simp

lemma str_nat_100: "str_nat 100 = ''100''" by code_simp

text \<open>
  C6, as the code has it. In a sequence of \<open>num_frames\<close> frames, the name of frame
  \<open>i\<close> is the prefix, \<open>_frame_\<close>, the index and \<open>.png\<close>, and the index is written
  with exactly \<open>len(str(num_frames))\<close> digits, zeros on the left: 10 frames pad to 2
  digits and 100 frames to 3.
\<close>

theorem sequence_padding:
  assumes "i < num_frames"
  shows "export_sequence_names frame_prefix num_frames ! i
           = frame_prefix @ ''_frame_'' @ format_0d (length (str_nat num_frames)) i @ ''.png''
       \<and> length (format_0d (length (str_nat num_frames)) i) = length (str_nat num_frames)
       \<and> format_0d (length (str_nat num_frames)) i
           = replicate (length (str_nat num_frames) - length (str_nat i)) CHR ''0'' @ str_nat i"
proof -
  have "length (str_nat i) \<le> length (str_nat num_frames)"
    using assms by (simp add: length_str_nat_mono)
  then have "length (format_0d (length (str_nat num_frames)) i) = length (str_nat num_frames)"
    by (simp add: length_format_0d)
  then show ?thesis using assms
    by (simp add: export_sequence_names_def frame_filename_def padding_width_def format_0d_def)
qed

theorem sequence_padding_witness:
  "(7::nat) < 100 \<and> export_sequence_names ''perlin_v00'' 100 ! 7 = ''perlin_v00_frame_007.png''
   \<and> length (format_0d (length (str_nat 100)) 7) = 3"
  using sequence_padding[of 7 100 "''perlin_v00''"]
  by (simp add: format_0d_def str_nat_100 str_nat_7)

text \<open>
  C6 as stated fails: with 10 frames the index has 2 digits, not the 1 digit of
  \<open>len(str(9))\<close>.
\<close>

theorem sequence_padding_counterexample:
  "export_sequence_names ''perlin_v00'' 10 ! 0 = ''perlin_v00_frame_00.png''
   \<and> length (format_0d (padding_width 10) 0) \<noteq> length (str_nat (10 - 1))"
  by (simp add: export_sequence_names_def frame_filename_def format_0d_def padding_width_def
      str_nat_10 str_nat_9 str_nat_0)

section \<open>The sprite field library\<close>

lemma centre_dist_4_4_3_2: "centre_dist 4 4 3 2 = 1"
  by (simp add: centre_dist_def)

text \<open>
  Where the claim about the soft edge holds: the circle, without the gradient, is the
  clamped ramp for a positive softness and the hard step otherwise.
\<close>

lemma circle_soft_edge:
  assumes "\<not> opt_or False (s_gradient p)"
  shows "circle_intensity w h p x y =
    (let radius = opt_or 0.4 (s_radius p) * real (min w h) / 2;
         softness = opt_or 0.1 (s_softness p) * real (min w h) / 2;
         dist = centre_dist w h x y
     in if softness > 0 then Fin (clip (1 - (dist - radius) / softness) 0 1)
        else Fin (if dist \<le> radius then 1 else 0))"
  using assms by (simp add: circle_intensity_def Let_def)

lemma cross_zero_softness:
  "cross_intensity 4 4 (empty_bag\<lparr>s_thickness := Some 0.5, s_softness := Some 0\<rparr>) 2 3 = NaN"
  by (simp add: cross_intensity_def empty_bag_def opt_or_def np_div_def radians_def)

text \<open>
  C4 at its failing input. On a 4 by 4 sprite with outer radius 0.5 and softness 0, the
  pixel \<open>(3, 2)\<close> lies at distance 1 from the centre, exactly the outer radius. The
  claim gives it the hard step's 1, as the circle does; the ring divides 0 by 0 and
  its intensity there is NaN.
\<close>

theorem ring_zero_softness:
  "ring_intensity 4 4 (empty_bag\<lparr>s_outer_radius := Some 0.5, s_softness := Some 0\<rparr>) 3 2 = NaN
   \<and> circle_intensity 4 4 (empty_bag\<lparr>s_radius := Some 0.5, s_softness := Some 0\<rparr>) 3 2 = Fin 1"
  by (simp add: ring_intensity_def circle_intensity_def centre_dist_4_4_3_2 empty_bag_def
      opt_or_def np_div_def)

lemma py_int_clip:
  assumes "- 1 < r" "r < 256"
  shows "py_int r = py_int (clip r 0 255)" and "0 \<le> py_int r" and "py_int r \<le> 255"
proof -
  show "py_int r = py_int (clip r 0 255)"
  proof (cases "0 \<le> r")
    case True
    show ?thesis
    proof (cases "r \<le> 255")
      case T: True
      then show ?thesis using True by (simp add: clip_def)
    next
      case False
      then have "\<lfloor>r\<rfloor> = 255" using assms by (intro floor_unique) simp_all
      then show ?thesis using True False by (simp add: clip_def py_int_def)
    qed
  next
    case False
    then have "\<lceil>r\<rceil> = 0" using assms by (intro ceiling_unique) simp_all
    then show ?thesis using False by (simp add: clip_def py_int_def)
  qed
  show "0 \<le> py_int r" using assms by (simp add: py_int_def)
  show "py_int r \<le> 255" using assms by (simp add: py_int_def floor_le_iff)
qed

lemma astype_uint8_in_range:
  assumes "- 1 < r" "r < 256"
  shows "uint (astype_uint8 platform (Fin r)) = py_int (clip r 0 255)"
proof -
  have "uint (word_of_int (py_int r) :: 8 word) = py_int r"
    using py_int_clip(2,3)[OF assms] by (simp add: uint_word_of_int)
  then show ?thesis using assms py_int_clip(1)[OF assms] by (simp add: astype_uint8_def)
qed

lemma astype_uint8_out_of_range:
  assumes "r \<le> - 1 \<or> 256 \<le> r"
  shows "astype_uint8 platform (Fin r) = platform (Fin r)"
  using assms by (auto simp: astype_uint8_def)

lemma astype_uint8_wrap:
  assumes "- (2 ^ 31) - 1 < r" "r < 2 ^ 31"
  shows "uint (astype_uint8 wrap_cast (Fin r)) = py_int r mod 256"
  using assms by (simp add: astype_uint8_def wrap_cast_def uint_word_of_int)

lemma astype_uint8_beyond:
  assumes "r \<le> - (2 ^ 31) - 1 \<or> 2 ^ 31 \<le> r"
  shows "astype_uint8 wrap_cast (Fin r) = 0"
  using assms by (auto simp: astype_uint8_def wrap_cast_def)

lemma channel_cast_astype: "channel_cast x (astype_uint8 platform (Fin x)) platform"
  unfolding channel_cast_def
  using astype_uint8_in_range[of x platform] astype_uint8_out_of_range[of x platform]
    astype_uint8_wrap[of x] astype_uint8_beyond[of x]
  by blast

text \<open>
  C5, as the code has it. For a finite intensity \<open>v\<close>, each channel of the pixel is
  the conversion of its own product, \<open>v * r\<close>, \<open>v * g\<close>, \<open>v * b\<close> or
  \<open>v * alpha * 255\<close>, whatever the other three are, and nothing clamps it: a product
  inside \<open>(-1, 256)\<close> gives its integer part, which is the product clamped to
  \<open>[0, 255]\<close>, on every platform; a product outside is converted by the platform, and
  on x86-64 that gives the integer part modulo 256 up to \<open>2^31\<close> and 0 beyond.
\<close>

theorem color_pixel_channels:
  assumes "color_pixel platform p (Fin v) = (r, g, b, a)"
  shows "channel_cast (v * real_of_int (py_int (opt_or 255 (s_color_r p)))) r platform
       \<and> channel_cast (v * real_of_int (py_int (opt_or 255 (s_color_g p)))) g platform
       \<and> channel_cast (v * real_of_int (py_int (opt_or 255 (s_color_b p)))) b platform
       \<and> channel_cast (v * opt_or 1 (s_alpha p) * 255) a platform"
  using assms channel_cast_astype by (auto simp: color_pixel_def Let_def)

lemma color_pixel_mixed:
  "color_pixel wrap_cast (empty_bag\<lparr>s_color_r := Some 100\<rparr>) (Fin (3 / 2)) = (150, 126, 126, 126)"
  by (simp add: color_pixel_def astype_uint8_def wrap_cast_def empty_bag_def opt_or_def
      py_int_def Let_def)

theorem color_pixel_channels_witness:
  "color_pixel wrap_cast (empty_bag\<lparr>s_color_r := Some 100\<rparr>) (Fin (3 / 2)) = (150, 126, 126, 126)
   \<and> uint (150 :: 8 word) = py_int (clip (3 / 2 * 100) 0 255)
   \<and> uint (126 :: 8 word) = py_int (3 / 2 * 255) mod 256"
proof -
  have c: "real_of_int (py_int (opt_or 255 (s_color_r (empty_bag\<lparr>s_color_r := Some 100\<rparr>)))) = 100"
    "real_of_int (py_int (opt_or 255 (s_color_g (empty_bag\<lparr>s_color_r := Some 100\<rparr>)))) = 255"
    by (simp_all add: empty_bag_def opt_or_def py_int_def)
  note t = color_pixel_channels[OF color_pixel_mixed, unfolded c]
  have "channel_cast (3 / 2 * 100) 150 wrap_cast" using t by blast
  then have r: "uint (150 :: 8 word) = py_int (clip (3 / 2 * 100) 0 255)"
    by (simp add: channel_cast_def)
  have "channel_cast (3 / 2 * 255) 126 wrap_cast" using t by blast
  then have g: "uint (126 :: 8 word) = py_int (3 / 2 * 255) mod 256"
    by (simp add: channel_cast_def)
  show ?thesis using color_pixel_mixed r g by blast
qed

text \<open>
  C5 as stated fails: the centre pixel of a Glow with intensity 2 has the products
  510, and the conversion of x86-64 makes every channel 254, not the 255 of a clamp.
\<close>

theorem color_pixel_counterexample:
  "glow wrap_cast (\<lambda>m sigma. m) 4 4 (empty_bag\<lparr>s_intensity := Some 2\<rparr>) ! 2 ! 2
     = (254, 254, 254, 254)
   \<and> py_int (clip (2 * 255) 0 255) = 255"
  by (simp add: glow_def glow_intensity_def apply_color_and_alpha_def grid_def centre_dist_def
      color_pixel_def astype_uint8_def wrap_cast_def empty_bag_def opt_or_def np_div_def
      py_int_def clip_def overflow64_def Let_def)

end
